theory Spec2Isabelle
  imports Main
begin

section \<open>Values, rows and the store\<close>

text \<open>
  The resolvers of the \<^verbatim>\<open>Mutation\<close> object are a thin layer over a generated database
  client (\<^verbatim>\<open>ctx.db\<close>), a response object (\<^verbatim>\<open>ctx.response\<close>) and a mail transport.
  Each resolver is embedded as a function from its arguments, the request and the
  state of these three to an outcome (a thrown error or a returned value) and the state
  afterwards.
\<close>

type_synonym ident = string

text \<open>
  Argument objects that a resolver copies as a whole (\<^verbatim>\<open>...args\<close>) are maps from keys to
  values; a key that is absent reads as \<^verbatim>\<open>undefined\<close>. \<^verbatim>\<open>SetOf xs\<close> is the object
  \<^verbatim>\<open>{ set: xs }\<close>.
\<close>

datatype jsval = Str string | Num int | SetOf "string list" | Null

type_synonym obj = "string \<rightharpoonup> jsval"

text \<open>
  \<^verbatim>\<open>Error\<close> is \<^verbatim>\<open>throw new Error(message)\<close> of a resolver. \<^verbatim>\<open>TypeError p\<close> is what
  JavaScript raises when property \<^verbatim>\<open>p\<close> is read from \<^verbatim>\<open>null\<close> or \<^verbatim>\<open>undefined\<close>.
  \<^verbatim>\<open>DbError\<close> is a rejection by the database client, \<^verbatim>\<open>MailError\<close> one by the transport,
  \<^verbatim>\<open>HashError\<close> the rejection of an argument that is not a string by \<^verbatim>\<open>bcrypt.hash\<close>.
\<close>

datatype error = Error string | TypeError string | DbError string | MailError string | HashError

text \<open>
  The rows. A user row keeps the fields the resolvers read or write and, in
  \<^verbatim>\<open>u_rest\<close>, whatever else it was created with (the name). An item and a cart item
  point to their user, a cart item to its item.
\<close>

record user =
  u_id :: ident
  u_email :: string
  u_password :: string
  u_permissions :: "string list"
  u_resetToken :: "string option"
  u_resetTokenExpiry :: "int option"
  u_rest :: obj

record item =
  i_id :: ident
  i_user :: ident
  i_fields :: obj

record cart_item =
  ci_id :: ident
  ci_quantity :: int
  ci_user :: ident
  ci_item :: ident

text \<open>
  The three tables. \<^verbatim>\<open>quantity_default\<close> is the datamodel's default for
  \<^verbatim>\<open>CartItem.quantity\<close>; the datamodel is not among the sources, so the value is a
  parameter of the store.
\<close>

record database =
  users :: "user list"
  items :: "item list"
  cartItems :: "cart_item list"
  quantity_default :: int

datatype user_where = ByEmail string | ById ident

text \<open>
  The three shapes of \<^verbatim>\<open>data\<close> that the resolvers pass to \<^verbatim>\<open>updateUser\<close>:
  \<^verbatim>\<open>{ resetToken, resetTokenExpiry }\<close>,
  \<^verbatim>\<open>{ password, resetToken: null, resetTokenExpiry: null }\<close> and
  \<^verbatim>\<open>{ permissions: { set: ... } }\<close>.
\<close>

datatype user_update =
    ResetStamp string int
  | NewPassword string
  | PermissionsSet "string list"

text \<open>The mutations of the client, as the resolvers call them.\<close>

datatype db_call =
    CreateUser obj
  | UpdateUser user_where user_update
  | UpdateItem "jsval option" obj
  | DeleteItem ident
  | UpdateCartItem ident int
  | CreateCartItem ident ident
  | DeleteCartItem ident

record cookie =
  c_name :: string
  c_value :: string
  c_httpOnly :: bool
  c_maxAge :: int

record mail =
  m_from :: string
  m_to :: string
  m_subject :: string
  m_html :: string

text \<open>
  The state a resolver acts on: the tables, the mutations issued to the client so far
  (in order, whether the database accepted them or not), the cookies set on the
  response and the mails handed to the transport.
\<close>

record world =
  db :: database
  calls :: "db_call list"
  cookies :: "cookie list"
  outbox :: "mail list"

datatype result = RUser user | RItem item | RCartItem cart_item | RMessage string

type_synonym outcome = "(error + result) \<times> world"

text \<open>\<^verbatim>\<open>ctx.request\<close>: the id read from the session token and the user row loaded for it.\<close>

record request =
  r_userId :: "ident option"
  r_user :: "user option"

text \<open>
  What the host and the libraries decide: the environment variables (\<^verbatim>\<open>APP_SECRET\<close> may
  be unset; \<^verbatim>\<open>FRONTEND_URL\<close> is the text that the mail template interpolates), the clock, the random bytes, the id the database gives a created node,
  whether the transport accepts a mail, and the library functions \<^verbatim>\<open>bcrypt.hash\<close>,
  \<^verbatim>\<open>bcrypt.compare\<close>, \<^verbatim>\<open>String.prototype.toLowerCase\<close> and \<^verbatim>\<open>makeANiceEmail\<close>.
  \<^verbatim>\<open>jwt_encode\<close> is the token that \<^verbatim>\<open>jwt.sign\<close> computes for a user id and a secret it
  accepts.
\<close>

record env =
  APP_SECRET :: "string option"
  FRONTEND_URL :: string
  now :: int
  randomHex :: string
  db_new_id :: ident
  smtp_error :: "string option"
  bcrypt_hash :: "string \<Rightarrow> nat \<Rightarrow> string"
  bcrypt_compare :: "string \<Rightarrow> string \<Rightarrow> bool"
  jwt_encode :: "ident \<Rightarrow> string \<Rightarrow> string"
  toLowerCase :: "string \<Rightarrow> string"
  makeANiceEmail :: "string \<Rightarrow> string"

text \<open>\<^verbatim>\<open>!ctx.request.userId\<close>: \<^verbatim>\<open>undefined\<close> and the empty string are falsy.\<close>

definition falsy :: "ident option \<Rightarrow> bool" where
  "falsy x = (case x of None \<Rightarrow> True | Some s \<Rightarrow> s = [])"

text \<open>
  \<^verbatim>\<open>jwt.sign({ userId }, secretOrPrivateKey)\<close> throws when the secret is unset or empty
  (the library tests \<^verbatim>\<open>!secretOrPrivateKey\<close> first) and returns the token otherwise.
\<close>

definition jwt_sign :: "env \<Rightarrow> ident \<Rightarrow> string option \<Rightarrow> error + string" where
  "jwt_sign e userId secretOrPrivateKey =
     (case secretOrPrivateKey of
        None \<Rightarrow> Inl (Error ''secretOrPrivateKey must have a value'')
      | Some secret \<Rightarrow>
          if falsy (Some secret) then Inl (Error ''secretOrPrivateKey must have a value'')
          else Inr (jwt_encode e userId secret))"

section \<open>The database client\<close>

text \<open>
  The client is generated by the ORM and is not part of the repository. Its operations
  are modelled on the tables: a query filters a table, a mutation is recorded in
  \<^verbatim>\<open>calls\<close> and then changes the table or is rejected. Rows are looked up by the
  exact value of the field; \<^verbatim>\<open>email\<close> is unique among users; an update or a delete of a
  node that does not exist and a \<^verbatim>\<open>connect\<close> to one are rejected. An operation is
  taken to return the row with all its fields, as it does for a selection (\<^verbatim>\<open>info\<close>) that
  names them all.
\<close>

definition query_user :: "database \<Rightarrow> user_where \<Rightarrow> user option" where
  "query_user d wh =
     (case wh of
        ByEmail e \<Rightarrow> find (\<lambda>u. u_email u = e) (users d)
      | ById i \<Rightarrow> find (\<lambda>u. u_id u = i) (users d))"

definition query_item :: "database \<Rightarrow> ident \<Rightarrow> item option" where
  "query_item d i = find (\<lambda>x. i_id x = i) (items d)"

definition query_cartItems :: "database \<Rightarrow> ident \<Rightarrow> ident \<Rightarrow> cart_item list" where
  "query_cartItems d uid iid = filter (\<lambda>c. ci_user c = uid \<and> ci_item c = iid) (cartItems d)"

definition expiry_gte :: "int option \<Rightarrow> int \<Rightarrow> bool" where
  "expiry_gte x bound = (case x of None \<Rightarrow> False | Some e \<Rightarrow> bound \<le> e)"

definition query_users :: "database \<Rightarrow> string \<Rightarrow> int \<Rightarrow> user list" where
  "query_users d tok bound =
     filter (\<lambda>u. u_resetToken u = Some tok \<and> expiry_gte (u_resetTokenExpiry u) bound) (users d)"

definition record_call :: "db_call \<Rightarrow> world \<Rightarrow> world" where
  "record_call c w = w\<lparr>calls := calls w @ [c]\<rparr>"

definition set_users :: "user list \<Rightarrow> world \<Rightarrow> world" where
  "set_users us w = w\<lparr>db := (db w)\<lparr>users := us\<rparr>\<rparr>"

definition set_items :: "item list \<Rightarrow> world \<Rightarrow> world" where
  "set_items xs w = w\<lparr>db := (db w)\<lparr>items := xs\<rparr>\<rparr>"

definition set_cartItems :: "cart_item list \<Rightarrow> world \<Rightarrow> world" where
  "set_cartItems cs w = w\<lparr>db := (db w)\<lparr>cartItems := cs\<rparr>\<rparr>"

text \<open>The value of a property when it is a string.\<close>

definition string_of :: "jsval option \<Rightarrow> string option" where
  "string_of v = (case v of Some (Str s) \<Rightarrow> Some s | _ \<Rightarrow> None)"

definition set_of :: "jsval option \<Rightarrow> string list option" where
  "set_of v = (case v of Some (SetOf xs) \<Rightarrow> Some xs | _ \<Rightarrow> None)"

text \<open>
  \<^verbatim>\<open>createUser\<close> reads the email, the password and the permissions from \<^verbatim>\<open>data\<close> and
  keeps its other keys with the row.
\<close>

definition mutation_createUser :: "ident \<Rightarrow> obj \<Rightarrow> world \<Rightarrow> (error + user) \<times> world" where
  "mutation_createUser nid data w =
     (let w1 = record_call (CreateUser data) w in
      case string_of (data ''email'') of
        None \<Rightarrow> (Inl (DbError ''You provided an invalid argument for the field email''), w1)
      | Some email \<Rightarrow>
          (case string_of (data ''password'') of
             None \<Rightarrow>
               (Inl (DbError ''You provided an invalid argument for the field password''), w1)
           | Some password \<Rightarrow>
               (case set_of (data ''permissions'') of
                  None \<Rightarrow>
                    (Inl (DbError ''You provided an invalid argument for the field permissions''), w1)
                | Some permissions \<Rightarrow>
                    if list_ex (\<lambda>u. u_email u = email) (users (db w))
                    then (Inl (DbError ''A unique constraint would be violated on User. Details: Field name = email''), w1)
                    else
                      (let u = \<lparr>u_id = nid, u_email = email, u_password = password,
                                u_permissions = permissions, u_resetToken = None,
                                u_resetTokenExpiry = None,
                                u_rest = restrict_map data
                                  (- {''email'', ''password'', ''permissions''})\<rparr>
                       in (Inr u, set_users (users (db w) @ [u]) w1)))))"

definition apply_user_update :: "user_update \<Rightarrow> user \<Rightarrow> user" where
  "apply_user_update upd u =
     (case upd of
        ResetStamp tok ex \<Rightarrow> u\<lparr>u_resetToken := Some tok, u_resetTokenExpiry := Some ex\<rparr>
      | NewPassword p \<Rightarrow> u\<lparr>u_password := p, u_resetToken := None, u_resetTokenExpiry := None\<rparr>
      | PermissionsSet ps \<Rightarrow> u\<lparr>u_permissions := ps\<rparr>)"

definition matches_user :: "user_where \<Rightarrow> user \<Rightarrow> bool" where
  "matches_user wh u = (case wh of ByEmail e \<Rightarrow> u_email u = e | ById i \<Rightarrow> u_id u = i)"

definition mutation_updateUser :: "user_where \<Rightarrow> user_update \<Rightarrow> world \<Rightarrow> (error + user) \<times> world" where
  "mutation_updateUser wh upd w =
     (let w1 = record_call (UpdateUser wh upd) w in
      case query_user (db w) wh of
        None \<Rightarrow> (Inl (DbError ''No Node for the model User found''), w1)
      | Some u \<Rightarrow>
          (Inr (apply_user_update upd u),
           set_users (map (\<lambda>x. if matches_user wh x then apply_user_update upd x else x)
                        (users (db w))) w1))"

definition mutation_updateCartItem :: "ident \<Rightarrow> int \<Rightarrow> world \<Rightarrow> outcome" where
  "mutation_updateCartItem cid q w =
     (let w1 = record_call (UpdateCartItem cid q) w in
      case find (\<lambda>c. ci_id c = cid) (cartItems (db w)) of
        None \<Rightarrow> (Inl (DbError ''No Node for the model CartItem found''), w1)
      | Some c \<Rightarrow>
          (Inr (RCartItem (c\<lparr>ci_quantity := q\<rparr>)),
           set_cartItems (map (\<lambda>x. if ci_id x = cid then x\<lparr>ci_quantity := q\<rparr> else x)
                            (cartItems (db w))) w1))"

definition mutation_createCartItem :: "ident \<Rightarrow> ident \<Rightarrow> ident \<Rightarrow> world \<Rightarrow> outcome" where
  "mutation_createCartItem nid uid iid w =
     (let w1 = record_call (CreateCartItem uid iid) w in
      if query_user (db w) (ById uid) = None
      then (Inl (DbError ''No Node for the model User found''), w1)
      else if query_item (db w) iid = None
      then (Inl (DbError ''No Node for the model Item found''), w1)
      else
        (let c = \<lparr>ci_id = nid, ci_quantity = quantity_default (db w),
                  ci_user = uid, ci_item = iid\<rparr>
         in (Inr (RCartItem c), set_cartItems (cartItems (db w) @ [c]) w1)))"

section \<open>The resolvers\<close>

text \<open>
  \<^verbatim>\<open>addToCart\<close>: the guard on the session, the query for the first cart item of this
  user and item, and one of the two mutations. (The \<^verbatim>\<open>console.log\<close> is left out.)
\<close>

definition addToCart :: "env \<Rightarrow> ident \<Rightarrow> request \<Rightarrow> world \<Rightarrow> outcome" where
  "addToCart e arg_id req w =
     (case r_userId req of
        None \<Rightarrow> (Inl (Error ''You must be signed in!''), w)
      | Some userId \<Rightarrow>
          if falsy (Some userId) then (Inl (Error ''You must be signed in!''), w)
          else
            (case query_cartItems (db w) userId arg_id of
               existingCartItem # _ \<Rightarrow>
                 mutation_updateCartItem (ci_id existingCartItem)
                   (ci_quantity existingCartItem + 1) w
             | [] \<Rightarrow> mutation_createCartItem (db_new_id e) userId arg_id w))"

text \<open>
  \<^verbatim>\<open>deleteItem\<close>. The query's result is read without a check (\<^verbatim>\<open>item.user.id\<close>), and
  so is the user of the request (\<^verbatim>\<open>ctx.request.user.permissions\<close>): reading a property
  of \<^verbatim>\<open>null\<close> or \<^verbatim>\<open>undefined\<close> raises a \<^verbatim>\<open>TypeError\<close>. Both flags are computed
  before the test, so the second read happens for an owner too. The comparison
  \<^verbatim>\<open>===\<close> of the owner's id with an absent \<^verbatim>\<open>userId\<close> is false.
\<close>

definition mutation_deleteItem :: "ident \<Rightarrow> world \<Rightarrow> outcome" where
  "mutation_deleteItem i w =
     (let w1 = record_call (DeleteItem i) w in
      case query_item (db w) i of
        None \<Rightarrow> (Inl (DbError ''No Node for the model Item found''), w1)
      | Some x \<Rightarrow> (Inr (RItem x), set_items (filter (\<lambda>y. i_id y \<noteq> i) (items (db w))) w1))"

definition deleteItem :: "ident \<Rightarrow> request \<Rightarrow> world \<Rightarrow> outcome" where
  "deleteItem arg_id req w =
     (case query_item (db w) arg_id of
        None \<Rightarrow> (Inl (TypeError ''user''), w)
      | Some item \<Rightarrow>
          (let ownsItem = (Some (i_user item) = r_userId req) in
           case r_user req of
             None \<Rightarrow> (Inl (TypeError ''permissions''), w)
           | Some user \<Rightarrow>
               (let hasPermissions =
                      list_ex (\<lambda>permission. permission \<in> set [''ADMIN'', ''ITEMDELETE''])
                        (u_permissions user)
                in if \<not> ownsItem \<and> \<not> hasPermissions
                   then (Inl (Error ''You don't have permission to do that!''), w)
                   else mutation_deleteItem arg_id w)))"

text \<open>
  \<^verbatim>\<open>ctx.response.cookie(name, value, { httpOnly, maxAge })\<close> adds a cookie to the
  response.
\<close>

definition response_cookie :: "string \<Rightarrow> string \<Rightarrow> bool \<Rightarrow> int \<Rightarrow> world \<Rightarrow> world" where
  "response_cookie name val httpOnly maxAge w =
     w\<lparr>cookies := cookies w @
         [\<lparr>c_name = name, c_value = val, c_httpOnly = httpOnly, c_maxAge = maxAge\<rparr>]\<rparr>"

text \<open>
  \<^verbatim>\<open>signup\<close>. \<^verbatim>\<open>args.email.toLowerCase()\<close> needs a string, and so does
  \<^verbatim>\<open>bcrypt.hash\<close>. The lowercased email is written back into \<^verbatim>\<open>args\<close>. In
  \<^verbatim>\<open>{ ...args, password, permissions: { set: ['USER'] } }\<close> the keys of \<^verbatim>\<open>args\<close>
  come first and the two named keys replace what \<^verbatim>\<open>args\<close> holds under them.
\<close>

definition signup :: "env \<Rightarrow> obj \<Rightarrow> world \<Rightarrow> outcome" where
  "signup e args w =
     (case string_of (args ''email'') of
        None \<Rightarrow> (Inl (TypeError ''toLowerCase''), w)
      | Some email \<Rightarrow>
          (let args = args(''email'' \<mapsto> Str (toLowerCase e email)) in
           case string_of (args ''password'') of
             None \<Rightarrow> (Inl HashError, w)
           | Some plain \<Rightarrow>
               (let password = bcrypt_hash e plain 10 in
                case mutation_createUser (db_new_id e)
                       (args ++ [''password'' \<mapsto> Str password,
                                 ''permissions'' \<mapsto> SetOf [''USER'']]) w of
                  (Inl err, w1) \<Rightarrow> (Inl err, w1)
                | (Inr user, w1) \<Rightarrow>
                    (case jwt_sign e (u_id user) (APP_SECRET e) of
                       Inl err \<Rightarrow> (Inl err, w1)
                     | Inr token \<Rightarrow>
                         (Inr (RUser user),
                          response_cookie ''token'' token True (1000 * 60 * 60 * 24 * 365) w1)))))"

definition signin :: "env \<Rightarrow> string \<Rightarrow> string \<Rightarrow> world \<Rightarrow> outcome" where
  "signin e email password w =
     (case query_user (db w) (ByEmail email) of
        None \<Rightarrow> (Inl (Error (''No such user found for email '' @ email)), w)
      | Some user \<Rightarrow>
          (let valid = bcrypt_compare e password (u_password user) in
           if \<not> valid then (Inl (Error ''Invalid password!''), w)
           else
             (case jwt_sign e (u_id user) (APP_SECRET e) of
                Inl err \<Rightarrow> (Inl err, w)
              | Inr token \<Rightarrow>
                  (Inr (RUser user),
                   response_cookie ''token'' token True (1000 * 60 * 60 * 24 * 365) w))))"

text \<open>\<^verbatim>\<open>transport.sendMail\<close>: the transport takes the mail or rejects it.\<close>

definition transport_sendMail :: "env \<Rightarrow> mail \<Rightarrow> world \<Rightarrow> (error + unit) \<times> world" where
  "transport_sendMail e m w =
     (case smtp_error e of
        Some msg \<Rightarrow> (Inl (MailError msg), w)
      | None \<Rightarrow> (Inr (), w\<lparr>outbox := outbox w @ [m]\<rparr>))"

definition requestReset :: "env \<Rightarrow> string \<Rightarrow> world \<Rightarrow> outcome" where
  "requestReset e arg_email w =
     (case query_user (db w) (ByEmail arg_email) of
        None \<Rightarrow> (Inl (Error (''No such user found for email '' @ arg_email)), w)
      | Some user \<Rightarrow>
          (let resetToken = randomHex e;
               resetTokenExpiry = now e + 3600000
           in case mutation_updateUser (ByEmail arg_email)
                     (ResetStamp resetToken resetTokenExpiry) w of
                (Inl err, w1) \<Rightarrow> (Inl err, w1)
              | (Inr res, w1) \<Rightarrow>
                  (case transport_sendMail e
                          \<lparr>m_from = ''scotty313@gmail.com'', m_to = u_email user,
                           m_subject = ''Your password reset token'',
                           m_html = makeANiceEmail e
                             (''<p>Your password reset token is here!</p>'' @ [CHR 0x0A] @
                              ''          <a href='' @ [CHR 0x22] @ FRONTEND_URL e @ ''/reset?resetToken='' @
                              resetToken @ [CHR 0x22] @ ''>'' @ [CHR 0x0A] @
                              ''            Click here to reset your password.'' @ [CHR 0x0A] @
                              ''          </a>'')\<rparr> w1 of
                     (Inl err, w2) \<Rightarrow> (Inl err, w2)
                   | (Inr mailRes, w2) \<Rightarrow> (Inr (RMessage ''Password reset requested!''), w2))))"

record reset_args =
  ra_resetToken :: string
  ra_password :: string
  ra_confirmPassword :: string

definition resetPassword :: "env \<Rightarrow> reset_args \<Rightarrow> world \<Rightarrow> outcome" where
  "resetPassword e args w =
     (if ra_password args \<noteq> ra_confirmPassword args
      then (Inl (Error ''Your passwords don't match!''), w)
      else
        (case query_users (db w) (ra_resetToken args) (now e - 3600000) of
           [] \<Rightarrow>
             (Inl (Error ''This token is either invalid or expired - try requesting another password reset.''), w)
         | user # _ \<Rightarrow>
             (let password = bcrypt_hash e (ra_password args) 10
              in case mutation_updateUser (ByEmail (u_email user)) (NewPassword password) w of
                   (Inl err, w1) \<Rightarrow> (Inl err, w1)
                 | (Inr updatedUser, w1) \<Rightarrow>
                     (case jwt_sign e (u_id updatedUser) (APP_SECRET e) of
                        Inl err \<Rightarrow> (Inl err, w1)
                      | Inr token \<Rightarrow>
                          (Inr (RUser updatedUser),
                           response_cookie ''token'' token True (1000 * 60 * 60 * 24 * 365) w1)))))"

text \<open>
  Modelled from the spec: \<^verbatim>\<open>hasPermission\<close> is imported from \<^verbatim>\<open>../utils\<close>, which is not
  among the sources. The spec calls it "a permission-string membership check before
  privileged mutations", one of the "authorization checks gated on user-held permission
  strings": it throws unless the user holds one of the permissions needed. Its caller
  ignores the value it returns. A user that was not found has no \<^verbatim>\<open>permissions\<close> to read.
\<close>

definition hasPermission :: "user option \<Rightarrow> string list \<Rightarrow> error + unit" where
  "hasPermission usr permissionsNeeded =
     (case usr of
        None \<Rightarrow> Inl (TypeError ''permissions'')
      | Some u \<Rightarrow>
          if list_ex (\<lambda>permissionTheyHave. permissionTheyHave \<in> set permissionsNeeded)
               (u_permissions u)
          then Inr ()
          else Inl (Error ''You do not have sufficient permissions''))"

record permissions_args =
  pa_permissions :: "string list"
  pa_userId :: ident

definition updatePermissions :: "permissions_args \<Rightarrow> request \<Rightarrow> world \<Rightarrow> outcome" where
  "updatePermissions args req w =
     (case r_userId req of
        None \<Rightarrow> (Inl (Error ''You must be logged in!''), w)
      | Some userId \<Rightarrow>
          if falsy (Some userId) then (Inl (Error ''You must be logged in!''), w)
          else
            (let currentUser = query_user (db w) (ById userId) in
             case hasPermission currentUser [''ADMIN'', ''PERMISSIONUPDATE''] of
               Inl err \<Rightarrow> (Inl err, w)
             | Inr _ \<Rightarrow>
                 (case mutation_updateUser (ById (pa_userId args))
                         (PermissionsSet (pa_permissions args)) w of
                    (Inl err, w1) \<Rightarrow> (Inl err, w1)
                  | (Inr u, w1) \<Rightarrow> (Inr (RUser u), w1))))"

text \<open>
  \<^verbatim>\<open>updateItem\<close>: \<^verbatim>\<open>updates\<close> is a copy of the argument object without its \<^verbatim>\<open>id\<close>;
  the \<^verbatim>\<open>where\<close> clause carries \<^verbatim>\<open>args.id\<close> as it is (\<^verbatim>\<open>undefined\<close> when absent). The
  database writes the keys of \<^verbatim>\<open>data\<close> over the fields of the item.
\<close>

definition mutation_updateItem :: "jsval option \<Rightarrow> obj \<Rightarrow> world \<Rightarrow> outcome" where
  "mutation_updateItem wh data w =
     (let w1 = record_call (UpdateItem wh data) w in
      case wh of
        Some (Str i) \<Rightarrow>
          (case query_item (db w) i of
             None \<Rightarrow> (Inl (DbError ''No Node for the model Item found''), w1)
           | Some x \<Rightarrow>
               (Inr (RItem (x\<lparr>i_fields := i_fields x ++ data\<rparr>)),
                set_items (map (\<lambda>y. if i_id y = i then y\<lparr>i_fields := i_fields y ++ data\<rparr> else y)
                             (items (db w))) w1))
      | _ \<Rightarrow> (Inl (DbError ''You provided an invalid argument for the where selector on Item''), w1))"

definition updateItem :: "obj \<Rightarrow> world \<Rightarrow> outcome" where
  "updateItem args w =
     (let updates = args;
          updates = updates(''id'' := None)
      in mutation_updateItem (args ''id'') updates w)"

text \<open>
  \<^verbatim>\<open>removeFromCart\<close> checks what its query returns before it reads it.
\<close>

definition query_cartItem :: "database \<Rightarrow> ident \<Rightarrow> cart_item option" where
  "query_cartItem d i = find (\<lambda>c. ci_id c = i) (cartItems d)"

definition mutation_deleteCartItem :: "ident \<Rightarrow> world \<Rightarrow> outcome" where
  "mutation_deleteCartItem i w =
     (let w1 = record_call (DeleteCartItem i) w in
      case query_cartItem (db w) i of
        None \<Rightarrow> (Inl (DbError ''No Node for the model CartItem found''), w1)
      | Some c \<Rightarrow>
          (Inr (RCartItem c), set_cartItems (filter (\<lambda>y. ci_id y \<noteq> i) (cartItems (db w))) w1))"

definition removeFromCart :: "ident \<Rightarrow> request \<Rightarrow> world \<Rightarrow> outcome" where
  "removeFromCart arg_id req w =
     (case query_cartItem (db w) arg_id of
        None \<Rightarrow> (Inl (Error ''No cart item found!''), w)
      | Some cartItem \<Rightarrow>
          if Some (ci_user cartItem) \<noteq> r_userId req
          then (Inl (Error ''It appears you don't own that item...''), w)
          else mutation_deleteCartItem arg_id w)"

section \<open>A small shop\<close>

text \<open>
  Concrete data on which the resolvers are run: an administrator and a customer, an
  item of each, and one cart item of the customer. The stand-ins for the libraries are
  only used here; the theorems below hold for every environment.
\<close>

definition lower_char :: "char \<Rightarrow> char" where
  "lower_char c =
     (case map_of (zip ''ABCDEFGHIJKLMNOPQRSTUVWXYZ'' ''abcdefghijklmnopqrstuvwxyz'') c of
        Some l \<Rightarrow> l
      | None \<Rightarrow> c)"

definition shop_env :: env where
  "shop_env =
     \<lparr>APP_SECRET = Some ''s3cret'', FRONTEND_URL = ''http://localhost:7777'', now = 1000000,
      randomHex = ''0a1b2c'', db_new_id = ''n1'', smtp_error = None,
      bcrypt_hash = (\<lambda>p rounds. ''#'' @ p), bcrypt_compare = (\<lambda>p h. h = ''#'' @ p),
      jwt_encode = (\<lambda>uid secret. uid @ ''.'' @ secret), toLowerCase = map lower_char,
      makeANiceEmail = (\<lambda>t. t)\<rparr>"

definition admin :: user where
  "admin =
     \<lparr>u_id = ''u1'', u_email = ''ada@shop.io'', u_password = ''#pw1'',
      u_permissions = [''USER'', ''ADMIN''], u_resetToken = None, u_resetTokenExpiry = None,
      u_rest = Map.empty\<rparr>"

definition bob :: user where
  "bob =
     \<lparr>u_id = ''u2'', u_email = ''bob@shop.io'', u_password = ''#pw2'',
      u_permissions = [''USER''], u_resetToken = None, u_resetTokenExpiry = None,
      u_rest = Map.empty\<rparr>"

definition shoes :: item where
  "shoes = \<lparr>i_id = ''i1'', i_user = ''u1'', i_fields = [''title'' \<mapsto> Str ''Shoes'', ''price'' \<mapsto> Num 100]\<rparr>"

definition hat :: item where
  "hat = \<lparr>i_id = ''i2'', i_user = ''u2'', i_fields = [''title'' \<mapsto> Str ''Hat'', ''price'' \<mapsto> Num 20]\<rparr>"

definition shop :: world where
  "shop =
     \<lparr>db = \<lparr>users = [admin, bob], items = [shoes, hat],
             cartItems = [\<lparr>ci_id = ''c1'', ci_quantity = 2, ci_user = ''u2'', ci_item = ''i1''\<rparr>],
             quantity_default = 1\<rparr>,
      calls = [], cookies = [], outbox = []\<rparr>"

definition as_bob :: request where
  "as_bob = \<lparr>r_userId = Some ''u2'', r_user = Some bob\<rparr>"

definition as_admin :: request where
  "as_admin = \<lparr>r_userId = Some ''u1'', r_user = Some admin\<rparr>"

definition anonymous :: request where
  "anonymous = \<lparr>r_userId = None, r_user = None\<rparr>"

section \<open>Facts about the tables\<close>

lemmas shop_defs = shop_def admin_def bob_def shoes_def hat_def as_bob_def as_admin_def anonymous_def shop_env_def

lemma find_filter_hd:
  "find P xs = (case filter P xs of [] \<Rightarrow> None | x # _ \<Rightarrow> Some x)"
  by (induction xs) auto

lemma find_Some_mem: "find P xs = Some x \<Longrightarrow> x \<in> set xs \<and> P x"
  by (induction xs) (auto split: if_splits)

lemma find_by_key:
  "distinct (map f xs) \<Longrightarrow> x \<in> set xs \<Longrightarrow> find (\<lambda>y. f y = f x) xs = Some x"
  by (induction xs) (auto simp: rev_image_eqI)

lemma map_by_key:
  "distinct (map f xs) \<Longrightarrow> x \<in> set xs \<Longrightarrow>
   map (\<lambda>y. if f y = f x then g y else y) xs = map (\<lambda>y. if y = x then g y else y) xs"
  by (rule map_cong) (auto simp: distinct_map dest: inj_onD)

lemma find_not_None: "x \<in> set xs \<Longrightarrow> P x \<Longrightarrow> find P xs \<noteq> None"
  by (auto simp: find_None_iff)

lemma find_append_None:
  "find P xs = None \<Longrightarrow> find P (xs @ [y]) = (if P y then Some y else None)"
  by (induction xs) (auto split: if_splits)

section \<open>The cart\<close>

text \<open>
  C1. A signed-in user adds an item to the cart. If the user's cart already holds a row
  for the item (\<^verbatim>\<open>c\<close>, the first such row), the only mutation issued is an update of that
  row, its quantity becomes the old quantity plus one, and every other row and table is
  as before: no row is created. If there is no such row (and the user and the item
  exist), the only mutation issued is one \<^verbatim>\<open>createCartItem\<close>, which appends a single row
  connecting the user and the item with the default quantity. The ids of the cart items
  are unique, as the database keeps them.
\<close>

theorem addToCart_increments_or_creates:
  assumes signed_in: "r_userId req = Some uid" "uid \<noteq> []"
    and ids: "distinct (map ci_id (cartItems (db w)))"
  shows
    "(\<forall>c. find (\<lambda>c. ci_user c = uid \<and> ci_item c = iid) (cartItems (db w)) = Some c \<longrightarrow>
        addToCart e iid req w =
          (Inr (RCartItem (c\<lparr>ci_quantity := ci_quantity c + 1\<rparr>)),
           w\<lparr>db := (db w)\<lparr>cartItems :=
                  map (\<lambda>x. if x = c then x\<lparr>ci_quantity := ci_quantity c + 1\<rparr> else x)
                    (cartItems (db w))\<rparr>,
              calls := calls w @ [UpdateCartItem (ci_id c) (ci_quantity c + 1)]\<rparr>))
     \<and> (find (\<lambda>c. ci_user c = uid \<and> ci_item c = iid) (cartItems (db w)) = None \<and>
        query_user (db w) (ById uid) \<noteq> None \<and> query_item (db w) iid \<noteq> None \<longrightarrow>
        addToCart e iid req w =
          (Inr (RCartItem \<lparr>ci_id = db_new_id e, ci_quantity = quantity_default (db w),
                          ci_user = uid, ci_item = iid\<rparr>),
           w\<lparr>db := (db w)\<lparr>cartItems := cartItems (db w) @
                  [\<lparr>ci_id = db_new_id e, ci_quantity = quantity_default (db w),
                    ci_user = uid, ci_item = iid\<rparr>]\<rparr>,
              calls := calls w @ [CreateCartItem uid iid]\<rparr>))"
proof (intro conjI allI impI)
  fix c
  assume f: "find (\<lambda>c. ci_user c = uid \<and> ci_item c = iid) (cartItems (db w)) = Some c"
  then obtain cs where q: "query_cartItems (db w) uid iid = c # cs"
    by (auto simp: find_filter_hd query_cartItems_def split: list.splits)
  from f have mem: "c \<in> set (cartItems (db w))"
    by (auto dest: find_Some_mem)
  have fk: "find (\<lambda>x. ci_id x = ci_id c) (cartItems (db w)) = Some c"
    using find_by_key [OF ids mem] .
  have mk: "map (\<lambda>x. if ci_id x = ci_id c then x\<lparr>ci_quantity := ci_quantity c + 1\<rparr> else x) (cartItems (db w))
     = map (\<lambda>x. if x = c then x\<lparr>ci_quantity := ci_quantity c + 1\<rparr> else x) (cartItems (db w))"
    using map_by_key [OF ids mem] .
  show "addToCart e iid req w =
          (Inr (RCartItem (c\<lparr>ci_quantity := ci_quantity c + 1\<rparr>)),
           w\<lparr>db := (db w)\<lparr>cartItems :=
                  map (\<lambda>x. if x = c then x\<lparr>ci_quantity := ci_quantity c + 1\<rparr> else x)
                    (cartItems (db w))\<rparr>,
              calls := calls w @ [UpdateCartItem (ci_id c) (ci_quantity c + 1)]\<rparr>)"
    using signed_in q fk mk
    by (simp add: addToCart_def falsy_def mutation_updateCartItem_def record_call_def
        set_cartItems_def Let_def)
next
  assume a: "find (\<lambda>c. ci_user c = uid \<and> ci_item c = iid) (cartItems (db w)) = None \<and>
        query_user (db w) (ById uid) \<noteq> None \<and> query_item (db w) iid \<noteq> None"
  then have q: "query_cartItems (db w) uid iid = []"
    by (auto simp: find_filter_hd query_cartItems_def split: list.splits)
  show "addToCart e iid req w =
          (Inr (RCartItem \<lparr>ci_id = db_new_id e, ci_quantity = quantity_default (db w),
                          ci_user = uid, ci_item = iid\<rparr>),
           w\<lparr>db := (db w)\<lparr>cartItems := cartItems (db w) @
                  [\<lparr>ci_id = db_new_id e, ci_quantity = quantity_default (db w),
                    ci_user = uid, ci_item = iid\<rparr>]\<rparr>,
              calls := calls w @ [CreateCartItem uid iid]\<rparr>)"
    using signed_in q a
    by (simp add: addToCart_def falsy_def mutation_createCartItem_def record_call_def
        set_cartItems_def Let_def)
qed

text \<open>
  The customer of the shop adds the shoes, which are in the cart twice already, and the
  hat, which is not.
\<close>

theorem addToCart_witness:
  "addToCart shop_env ''i1'' as_bob shop =
     (Inr (RCartItem \<lparr>ci_id = ''c1'', ci_quantity = 3, ci_user = ''u2'', ci_item = ''i1''\<rparr>),
      shop\<lparr>db := (db shop)\<lparr>cartItems :=
               [\<lparr>ci_id = ''c1'', ci_quantity = 3, ci_user = ''u2'', ci_item = ''i1''\<rparr>]\<rparr>,
           calls := [UpdateCartItem ''c1'' 3]\<rparr>)
   \<and> addToCart shop_env ''i2'' as_bob shop =
     (Inr (RCartItem \<lparr>ci_id = ''n1'', ci_quantity = 1, ci_user = ''u2'', ci_item = ''i2''\<rparr>),
      shop\<lparr>db := (db shop)\<lparr>cartItems :=
               [\<lparr>ci_id = ''c1'', ci_quantity = 2, ci_user = ''u2'', ci_item = ''i1''\<rparr>,
                \<lparr>ci_id = ''n1'', ci_quantity = 1, ci_user = ''u2'', ci_item = ''i2''\<rparr>]\<rparr>,
           calls := [CreateCartItem ''u2'' ''i2'']\<rparr>)"
proof -
  have h1: "r_userId as_bob = Some ''u2''" by (simp add: as_bob_def)
  have h2: "''u2'' \<noteq> []" by simp
  have h3: "distinct (map ci_id (cartItems (db shop)))" by (simp add: shop_def)
  note t1 = addToCart_increments_or_creates [OF h1 h2 h3, of "''i1''" shop_env]
  note t2 = addToCart_increments_or_creates [OF h1 h2 h3, of "''i2''" shop_env]
  show ?thesis
  proof
    show "addToCart shop_env ''i1'' as_bob shop =
     (Inr (RCartItem \<lparr>ci_id = ''c1'', ci_quantity = 3, ci_user = ''u2'', ci_item = ''i1''\<rparr>),
      shop\<lparr>db := (db shop)\<lparr>cartItems :=
               [\<lparr>ci_id = ''c1'', ci_quantity = 3, ci_user = ''u2'', ci_item = ''i1''\<rparr>]\<rparr>,
           calls := [UpdateCartItem ''c1'' 3]\<rparr>)"
      using t1 by (simp add: shop_defs)
    show "addToCart shop_env ''i2'' as_bob shop =
     (Inr (RCartItem \<lparr>ci_id = ''n1'', ci_quantity = 1, ci_user = ''u2'', ci_item = ''i2''\<rparr>),
      shop\<lparr>db := (db shop)\<lparr>cartItems :=
               [\<lparr>ci_id = ''c1'', ci_quantity = 2, ci_user = ''u2'', ci_item = ''i1''\<rparr>,
                \<lparr>ci_id = ''n1'', ci_quantity = 1, ci_user = ''u2'', ci_item = ''i2''\<rparr>]\<rparr>,
           calls := [CreateCartItem ''u2'' ''i2'']\<rparr>)"
      using t2 by (simp add: shop_defs query_user_def query_item_def)
  qed
qed

section \<open>Deleting an item\<close>

text \<open>
  When the item exists and the request carries a user, \<^verbatim>\<open>deleteItem\<close> deletes exactly
  for the owner and for holders of \<^verbatim>\<open>ADMIN\<close> or \<^verbatim>\<open>ITEMDELETE\<close>, and throws its
  permission error, leaving everything as it was, for everybody else.
\<close>

lemma deleteItem_signed_in:
  assumes "query_item (db w) i = Some it" and "r_user req = Some u"
  shows "deleteItem i req w =
     (if r_userId req = Some (i_user it) \<or> ''ADMIN'' \<in> set (u_permissions u)
          \<or> ''ITEMDELETE'' \<in> set (u_permissions u)
      then (Inr (RItem it),
            w\<lparr>db := (db w)\<lparr>items := filter (\<lambda>y. i_id y \<noteq> i) (items (db w))\<rparr>,
              calls := calls w @ [DeleteItem i]\<rparr>)
      else (Inl (Error ''You don't have permission to do that!''), w))"
  using assms
  by (auto simp: deleteItem_def mutation_deleteItem_def record_call_def set_items_def
      list_ex_iff Let_def)

text \<open>
  The other resolvers guard what \<^verbatim>\<open>deleteItem\<close> reads unguarded: \<^verbatim>\<open>addToCart\<close> and
  \<^verbatim>\<open>updatePermissions\<close> throw an \<^verbatim>\<open>Error\<close> when nobody is signed in, and
  \<^verbatim>\<open>removeFromCart\<close> throws one when its query finds nothing.
\<close>

lemma addToCart_not_signed_in:
  "falsy (r_userId req) \<Longrightarrow> addToCart e i req w = (Inl (Error ''You must be signed in!''), w)"
  by (auto simp: addToCart_def falsy_def split: option.splits)

lemma removeFromCart_unknown_id:
  "query_cartItem (db w) i = None \<Longrightarrow>
   removeFromCart i req w = (Inl (Error ''No cart item found!''), w)"
  by (simp add: removeFromCart_def)

text \<open>
  C2. The claim covers every call on an existing item: whoever is neither the owner nor a
  holder of \<^verbatim>\<open>ADMIN\<close> or \<^verbatim>\<open>ITEMDELETE\<close> gets the error
  \<^verbatim>\<open>You don't have permission to do that!\<close>. A visitor who is not signed in is such a
  requester, but for them \<^verbatim>\<open>ctx.request.user\<close> is \<^verbatim>\<open>undefined\<close> and the resolver stops
  at \<^verbatim>\<open>ctx.request.user.permissions\<close> with a \<^verbatim>\<open>TypeError\<close> before it reaches its test:
  here a visitor asks to delete the shoes of the shop.
\<close>

theorem deleteItem_anonymous_TypeError:
  "deleteItem ''i1'' anonymous shop = (Inl (TypeError ''permissions''), shop)"
  by (simp add: deleteItem_def shop_defs query_item_def)

text \<open>
  C6. The claim wants every failure of \<^verbatim>\<open>deleteItem\<close> to be a thrown \<^verbatim>\<open>Error\<close> with a
  message, never a read of a property of \<^verbatim>\<open>null\<close>. For an id that matches no item the
  query returns \<^verbatim>\<open>null\<close> and \<^verbatim>\<open>item.user\<close> raises a \<^verbatim>\<open>TypeError\<close>: here the
  administrator of the shop deletes an item that does not exist.
\<close>

theorem deleteItem_unknown_id_TypeError:
  "deleteItem ''i9'' as_admin shop = (Inl (TypeError ''user''), shop)"
  by (simp add: deleteItem_def shop_defs query_item_def)

section \<open>Permissions\<close>

text \<open>
  C3. A request without a user id gets \<^verbatim>\<open>You must be logged in!\<close> and nothing changes.
  A signed-in requester whose row is missing or holds neither \<^verbatim>\<open>ADMIN\<close> nor
  \<^verbatim>\<open>PERMISSIONUPDATE\<close> gets an error and nothing changes: no mutation is issued. A
  requester who holds one of the two issues exactly one \<^verbatim>\<open>updateUser\<close>, which replaces
  the permissions of the target \<^verbatim>\<open>t\<close> by the permissions of the arguments and leaves
  every other row as it was.
\<close>

theorem updatePermissions_guarded:
  "(falsy (r_userId req) \<longrightarrow>
      updatePermissions args req w = (Inl (Error ''You must be logged in!''), w))
   \<and> (\<forall>uid. r_userId req = Some uid \<and> uid \<noteq> [] \<and>
        \<not> (\<exists>cu. query_user (db w) (ById uid) = Some cu \<and>
               (''ADMIN'' \<in> set (u_permissions cu) \<or>
                ''PERMISSIONUPDATE'' \<in> set (u_permissions cu))) \<longrightarrow>
        (\<exists>err. updatePermissions args req w = (Inl err, w)))
   \<and> (\<forall>uid cu t. r_userId req = Some uid \<and> uid \<noteq> [] \<and>
        query_user (db w) (ById uid) = Some cu \<and>
        (''ADMIN'' \<in> set (u_permissions cu) \<or> ''PERMISSIONUPDATE'' \<in> set (u_permissions cu)) \<and>
        distinct (map u_id (users (db w))) \<and> t \<in> set (users (db w)) \<and>
        u_id t = pa_userId args \<longrightarrow>
        updatePermissions args req w =
          (Inr (RUser (t\<lparr>u_permissions := pa_permissions args\<rparr>)),
           w\<lparr>db := (db w)\<lparr>users :=
                  map (\<lambda>u. if u = t then u\<lparr>u_permissions := pa_permissions args\<rparr> else u)
                    (users (db w))\<rparr>,
              calls := calls w @
                  [UpdateUser (ById (pa_userId args)) (PermissionsSet (pa_permissions args))]\<rparr>))"
proof (intro conjI allI impI)
  assume "falsy (r_userId req)"
  then show "updatePermissions args req w = (Inl (Error ''You must be logged in!''), w)"
    by (auto simp: updatePermissions_def falsy_def split: option.splits)
next
  fix uid
  assume a: "r_userId req = Some uid \<and> uid \<noteq> [] \<and>
        \<not> (\<exists>cu. query_user (db w) (ById uid) = Some cu \<and>
               (''ADMIN'' \<in> set (u_permissions cu) \<or>
                ''PERMISSIONUPDATE'' \<in> set (u_permissions cu)))"
  then have "\<exists>err. hasPermission (query_user (db w) (ById uid)) [''ADMIN'', ''PERMISSIONUPDATE''] = Inl err"
    by (auto simp: hasPermission_def list_ex_iff split: option.splits)
  with a show "\<exists>err. updatePermissions args req w = (Inl err, w)"
    by (auto simp: updatePermissions_def falsy_def)
next
  fix uid cu t
  assume a: "r_userId req = Some uid \<and> uid \<noteq> [] \<and>
        query_user (db w) (ById uid) = Some cu \<and>
        (''ADMIN'' \<in> set (u_permissions cu) \<or> ''PERMISSIONUPDATE'' \<in> set (u_permissions cu)) \<and>
        distinct (map u_id (users (db w))) \<and> t \<in> set (users (db w)) \<and>
        u_id t = pa_userId args"
  then have hp: "hasPermission (query_user (db w) (ById uid)) [''ADMIN'', ''PERMISSIONUPDATE''] = Inr ()"
    by (auto simp: hasPermission_def list_ex_iff)
  from a have ids: "distinct (map u_id (users (db w)))" and mem: "t \<in> set (users (db w))"
    and tid: "pa_userId args = u_id t"
    by auto
  have fk: "query_user (db w) (ById (pa_userId args)) = Some t"
    unfolding tid query_user_def using find_by_key [OF ids mem] by simp
  have mk: "map (\<lambda>x. if matches_user (ById (pa_userId args)) x
                     then apply_user_update (PermissionsSet (pa_permissions args)) x else x)
              (users (db w))
          = map (\<lambda>u. if u = t then u\<lparr>u_permissions := pa_permissions args\<rparr> else u) (users (db w))"
  proof (rule map_cong [OF refl])
    fix x assume "x \<in> set (users (db w))"
    with ids mem have "(u_id x = u_id t) = (x = t)"
      by (auto simp: distinct_map dest: inj_onD)
    then show "(if matches_user (ById (pa_userId args)) x
                then apply_user_update (PermissionsSet (pa_permissions args)) x else x)
             = (if x = t then x\<lparr>u_permissions := pa_permissions args\<rparr> else x)"
      by (simp add: tid matches_user_def apply_user_update_def)
  qed
  show "updatePermissions args req w =
          (Inr (RUser (t\<lparr>u_permissions := pa_permissions args\<rparr>)),
           w\<lparr>db := (db w)\<lparr>users :=
                  map (\<lambda>u. if u = t then u\<lparr>u_permissions := pa_permissions args\<rparr> else u)
                    (users (db w))\<rparr>,
              calls := calls w @
                  [UpdateUser (ById (pa_userId args)) (PermissionsSet (pa_permissions args))]\<rparr>)"
    using a hp fk mk
    by (simp add: updatePermissions_def falsy_def mutation_updateUser_def record_call_def
        set_users_def Let_def apply_user_update_def)
qed

text \<open>
  In the shop, a visitor, the customer and the administrator each ask to give the customer
  the permission \<^verbatim>\<open>ITEMDELETE\<close>.
\<close>

theorem updatePermissions_witness:
  "updatePermissions \<lparr>pa_permissions = [''USER'', ''ITEMDELETE''], pa_userId = ''u2''\<rparr> anonymous shop =
     (Inl (Error ''You must be logged in!''), shop)
   \<and> (\<exists>err. updatePermissions \<lparr>pa_permissions = [''USER'', ''ITEMDELETE''], pa_userId = ''u2''\<rparr>
               as_bob shop = (Inl err, shop))
   \<and> updatePermissions \<lparr>pa_permissions = [''USER'', ''ITEMDELETE''], pa_userId = ''u2''\<rparr> as_admin shop =
     (Inr (RUser (bob\<lparr>u_permissions := [''USER'', ''ITEMDELETE'']\<rparr>)),
      shop\<lparr>db := (db shop)\<lparr>users := [admin, bob\<lparr>u_permissions := [''USER'', ''ITEMDELETE'']\<rparr>]\<rparr>,
           calls := [UpdateUser (ById ''u2'') (PermissionsSet [''USER'', ''ITEMDELETE''])]\<rparr>)"
proof -
  let ?args = "\<lparr>pa_permissions = [''USER'', ''ITEMDELETE''], pa_userId = ''u2''\<rparr>"
  have 1: "updatePermissions ?args anonymous shop = (Inl (Error ''You must be logged in!''), shop)"
    using updatePermissions_guarded [of anonymous ?args shop, THEN conjunct1]
    by (simp add: anonymous_def falsy_def)
  have 2: "\<exists>err. updatePermissions ?args as_bob shop = (Inl err, shop)"
    using updatePermissions_guarded [of as_bob ?args shop, THEN conjunct2, THEN conjunct1,
        rule_format, of "''u2''"]
    by (simp add: shop_defs query_user_def)
  have 3: "updatePermissions ?args as_admin shop =
     (Inr (RUser (bob\<lparr>u_permissions := [''USER'', ''ITEMDELETE'']\<rparr>)),
      shop\<lparr>db := (db shop)\<lparr>users := [admin, bob\<lparr>u_permissions := [''USER'', ''ITEMDELETE'']\<rparr>]\<rparr>,
           calls := [UpdateUser (ById ''u2'') (PermissionsSet [''USER'', ''ITEMDELETE''])]\<rparr>)"
    using updatePermissions_guarded [of as_admin ?args shop, THEN conjunct2, THEN conjunct2,
        rule_format, of "''u1''" admin bob]
    by (simp add: shop_defs query_user_def)
  from 1 2 3 show ?thesis by blast
qed

section \<open>Signing up and signing in\<close>


lemma jwt_sign_Inl:
  "(jwt_sign e uid s = Inl err) = (falsy s \<and> err = Error ''secretOrPrivateKey must have a value'')"
  by (auto simp: jwt_sign_def falsy_def split: option.splits)

text \<open>
  With an email and a password that are strings, as the schema of the API requires,
  \<^verbatim>\<open>signup\<close> comes down to the one \<^verbatim>\<open>createUser\<close> and, when that succeeds, the token
  and the cookie. Without them it throws before it reaches the database.
\<close>

lemma signup_unfold:
  assumes em: "args ''email'' = Some (Str email)" and pw: "args ''password'' = Some (Str plain)"
  shows "signup e args w =
     (if list_ex (\<lambda>u. u_email u = toLowerCase e email) (users (db w))
      then (Inl (DbError ''A unique constraint would be violated on User. Details: Field name = email''),
            w\<lparr>calls := calls w @
                 [CreateUser (args(''email'' \<mapsto> Str (toLowerCase e email),
                                   ''password'' \<mapsto> Str (bcrypt_hash e plain 10),
                                   ''permissions'' \<mapsto> SetOf [''USER'']))]\<rparr>)
      else
        (case jwt_sign e (db_new_id e) (APP_SECRET e) of
           Inl err \<Rightarrow>
             (Inl err,
              w\<lparr>db := (db w)\<lparr>users := users (db w) @
                     [\<lparr>u_id = db_new_id e, u_email = toLowerCase e email,
                       u_password = bcrypt_hash e plain 10, u_permissions = [''USER''],
                       u_resetToken = None, u_resetTokenExpiry = None,
                       u_rest = restrict_map args (- {''email'', ''password'', ''permissions''})\<rparr>]\<rparr>,
                calls := calls w @
                   [CreateUser (args(''email'' \<mapsto> Str (toLowerCase e email),
                                     ''password'' \<mapsto> Str (bcrypt_hash e plain 10),
                                     ''permissions'' \<mapsto> SetOf [''USER'']))]\<rparr>)
         | Inr token \<Rightarrow>
             (Inr (RUser \<lparr>u_id = db_new_id e, u_email = toLowerCase e email,
                          u_password = bcrypt_hash e plain 10, u_permissions = [''USER''],
                          u_resetToken = None, u_resetTokenExpiry = None,
                          u_rest = restrict_map args (- {''email'', ''password'', ''permissions''})\<rparr>),
              w\<lparr>db := (db w)\<lparr>users := users (db w) @
                     [\<lparr>u_id = db_new_id e, u_email = toLowerCase e email,
                       u_password = bcrypt_hash e plain 10, u_permissions = [''USER''],
                       u_resetToken = None, u_resetTokenExpiry = None,
                       u_rest = restrict_map args (- {''email'', ''password'', ''permissions''})\<rparr>]\<rparr>,
                calls := calls w @
                   [CreateUser (args(''email'' \<mapsto> Str (toLowerCase e email),
                                     ''password'' \<mapsto> Str (bcrypt_hash e plain 10),
                                     ''permissions'' \<mapsto> SetOf [''USER'']))],
                cookies := cookies w @
                   [\<lparr>c_name = ''token'', c_value = token, c_httpOnly = True,
                     c_maxAge = 31536000000\<rparr>]\<rparr>)))"
proof -
  have d: "args(''email'' \<mapsto> Str (toLowerCase e email)) ++
             [''password'' \<mapsto> Str (bcrypt_hash e plain 10), ''permissions'' \<mapsto> SetOf [''USER'']]
         = args(''email'' \<mapsto> Str (toLowerCase e email),
                ''password'' \<mapsto> Str (bcrypt_hash e plain 10),
                ''permissions'' \<mapsto> SetOf [''USER''])"
    by (simp add: fun_eq_iff map_add_def)
  have r: "restrict_map (args(''email'' \<mapsto> Str (toLowerCase e email),
                ''password'' \<mapsto> Str (bcrypt_hash e plain 10),
                ''permissions'' \<mapsto> SetOf [''USER''])) (- {''email'', ''password'', ''permissions''})
         = restrict_map args (- {''email'', ''password'', ''permissions''})"
    by (auto simp: fun_eq_iff restrict_map_def)
  show ?thesis
    using em pw
    by (simp add: signup_def string_of_def set_of_def d r mutation_createUser_def record_call_def
        set_users_def Let_def response_cookie_def split: sum.splits)
qed

lemma signup_untyped:
  "string_of (args ''email'') = None \<or> string_of (args ''password'') = None \<Longrightarrow>
   \<exists>err. signup e args w = (Inl err, w)"
  by (auto simp: signup_def string_of_def Let_def split: option.splits jsval.splits)

lemma signin_unfold:
  "signin e email password w =
     (case find (\<lambda>u. u_email u = email) (users (db w)) of
        None \<Rightarrow> (Inl (Error (''No such user found for email '' @ email)), w)
      | Some u \<Rightarrow>
          if bcrypt_compare e password (u_password u)
          then (case jwt_sign e (u_id u) (APP_SECRET e) of
                  Inl err \<Rightarrow> (Inl err, w)
                | Inr token \<Rightarrow>
                    (Inr (RUser u),
                     w\<lparr>cookies := cookies w @
                          [\<lparr>c_name = ''token'', c_value = token, c_httpOnly = True,
                            c_maxAge = 31536000000\<rparr>]\<rparr>))
          else (Inl (Error ''Invalid password!''), w))"
  by (simp add: signin_def query_user_def response_cookie_def Let_def
      split: option.splits sum.splits)

lemma signup_typed:
  assumes em: "args ''email'' = Some (Str email)" and pw: "args ''password'' = Some (Str plain)"
  shows "signup e args w =
     (case mutation_createUser (db_new_id e)
             (args(''email'' \<mapsto> Str (toLowerCase e email),
                   ''password'' \<mapsto> Str (bcrypt_hash e plain 10),
                   ''permissions'' \<mapsto> SetOf [''USER''])) w of
        (Inl err, w1) \<Rightarrow> (Inl err, w1)
      | (Inr user, w1) \<Rightarrow>
          (case jwt_sign e (u_id user) (APP_SECRET e) of
             Inl err \<Rightarrow> (Inl err, w1)
           | Inr token \<Rightarrow>
               (Inr (RUser user),
                response_cookie ''token'' token True (1000 * 60 * 60 * 24 * 365) w1)))"
proof -
  have d: "args(''email'' \<mapsto> Str (toLowerCase e email)) ++
             [''password'' \<mapsto> Str (bcrypt_hash e plain 10), ''permissions'' \<mapsto> SetOf [''USER'']]
         = args(''email'' \<mapsto> Str (toLowerCase e email),
                ''password'' \<mapsto> Str (bcrypt_hash e plain 10),
                ''permissions'' \<mapsto> SetOf [''USER''])"
    by (simp add: fun_eq_iff map_add_def)
  show ?thesis
    using em pw by (simp add: signup_def string_of_def d Let_def)
qed

text \<open>
  C4. \<^verbatim>\<open>signup\<close> issues one mutation, a \<^verbatim>\<open>createUser\<close>. Its \<^verbatim>\<open>data\<close> holds
  \<^verbatim>\<open>bcrypt.hash(args.password, 10)\<close> under \<^verbatim>\<open>password\<close>, in the place of the password of
  the arguments, the lowercased email, the permissions \<^verbatim>\<open>{ set: ['USER'] }\<close>, and the
  arguments under every other key. The users table afterwards is the old one, or the old
  one with one more row, whose password is that hash and which keeps none of the three
  keys among its other fields; the other tables are as before.
\<close>

theorem signup_stores_hash:
  assumes em: "args ''email'' = Some (Str email)" and pw: "args ''password'' = Some (Str plain)"
  shows "(\<exists>data. calls (snd (signup e args w)) = calls w @ [CreateUser data] \<and>
            (\<forall>k. data k =
               (if k = ''password'' then Some (Str (bcrypt_hash e plain 10))
                else if k = ''permissions'' then Some (SetOf [''USER''])
                else if k = ''email'' then Some (Str (toLowerCase e email))
                else args k)))
   \<and> users (db (snd (signup e args w))) =
     (if list_ex (\<lambda>u. u_email u = toLowerCase e email) (users (db w))
      then users (db w)
      else users (db w) @
        [\<lparr>u_id = db_new_id e, u_email = toLowerCase e email,
          u_password = bcrypt_hash e plain 10, u_permissions = [''USER''],
          u_resetToken = None, u_resetTokenExpiry = None,
          u_rest = restrict_map args (- {''email'', ''password'', ''permissions''})\<rparr>])
   \<and> items (db (snd (signup e args w))) = items (db w)
   \<and> cartItems (db (snd (signup e args w))) = cartItems (db w)"
proof -
  let ?data = "args(''email'' \<mapsto> Str (toLowerCase e email),
                    ''password'' \<mapsto> Str (bcrypt_hash e plain 10),
                    ''permissions'' \<mapsto> SetOf [''USER''])"
  have c: "calls (snd (signup e args w)) = calls w @ [CreateUser ?data]"
    by (simp add: signup_unfold [OF em pw] split: sum.splits)
  have "\<exists>data. calls (snd (signup e args w)) = calls w @ [CreateUser data] \<and>
            (\<forall>k. data k =
               (if k = ''password'' then Some (Str (bcrypt_hash e plain 10))
                else if k = ''permissions'' then Some (SetOf [''USER''])
                else if k = ''email'' then Some (Str (toLowerCase e email))
                else args k))"
    using c by (intro exI [of _ ?data]) simp
  then show ?thesis
    by (simp add: signup_unfold [OF em pw] split: sum.splits)
qed

text \<open>
  A new customer signs up in the shop with the password \<^verbatim>\<open>pw3\<close>; the stand-in for the
  hash puts a \<^verbatim>\<open>#\<close> in front.
\<close>

theorem signup_stores_hash_witness:
  "(\<exists>data. calls (snd (signup shop_env
               [''email'' \<mapsto> Str ''Bo@shop.io'', ''password'' \<mapsto> Str ''pw3'', ''name'' \<mapsto> Str ''Bo'']
               shop)) = [CreateUser data] \<and>
           data ''password'' = Some (Str ''#pw3'') \<and> data ''name'' = Some (Str ''Bo''))
   \<and> map u_password (users (db (snd (signup shop_env
               [''email'' \<mapsto> Str ''Bo@shop.io'', ''password'' \<mapsto> Str ''pw3'', ''name'' \<mapsto> Str ''Bo'']
               shop)))) = [''#pw1'', ''#pw2'', ''#pw3'']"
proof -
  let ?args = "[''email'' \<mapsto> Str ''Bo@shop.io'', ''password'' \<mapsto> Str ''pw3'', ''name'' \<mapsto> Str ''Bo'']"
  have em: "?args ''email'' = Some (Str ''Bo@shop.io'')" by simp
  have pw: "?args ''password'' = Some (Str ''pw3'')" by simp
  note T = signup_stores_hash [where args = ?args and e = shop_env and w = shop, OF em pw]
  from T obtain data where d: "calls (snd (signup shop_env ?args shop)) = calls shop @ [CreateUser data]"
    and k: "\<forall>k. data k =
               (if k = ''password'' then Some (Str (bcrypt_hash shop_env ''pw3'' 10))
                else if k = ''permissions'' then Some (SetOf [''USER''])
                else if k = ''email'' then Some (Str (toLowerCase shop_env ''Bo@shop.io''))
                else ?args k)"
    by blast
  have a: "\<exists>data. calls (snd (signup shop_env ?args shop)) = [CreateUser data] \<and>
           data ''password'' = Some (Str ''#pw3'') \<and> data ''name'' = Some (Str ''Bo'')"
    using d k by (intro exI [of _ data]) (simp add: shop_defs)
  have b: "map u_password (users (db (snd (signup shop_env ?args shop)))) = [''#pw1'', ''#pw2'', ''#pw3'']"
    using T [THEN conjunct2, THEN conjunct1] by (simp add: shop_defs lower_char_def)
  from a b show ?thesis by (rule conjI)
qed



text \<open>
  C7. For every email and password \<^verbatim>\<open>signup\<close> issues the \<^verbatim>\<open>createUser\<close> mutation with
  the lowercased email and the hashed password, whatever the table holds. When the
  database rejects the mutation, \<^verbatim>\<open>signup\<close> throws the error of the database and
  changes nothing else. When the database accepts it, the user is created and
  \<^verbatim>\<open>signup\<close> returns it, unless signing the token fails for want of a secret: no
  branch of \<^verbatim>\<open>signup\<close> looks for a duplicate.
\<close>

theorem signup_defers_to_database:
  assumes em: "args ''email'' = Some (Str email)" and pw: "args ''password'' = Some (Str plain)"
  shows "calls (snd (signup e args w)) =
     calls w @ [CreateUser (args(''email'' \<mapsto> Str (toLowerCase e email),
                                 ''password'' \<mapsto> Str (bcrypt_hash e plain 10),
                                 ''permissions'' \<mapsto> SetOf [''USER'']))]
   \<and> (\<forall>err. fst (mutation_createUser (db_new_id e)
                  (args(''email'' \<mapsto> Str (toLowerCase e email),
                        ''password'' \<mapsto> Str (bcrypt_hash e plain 10),
                        ''permissions'' \<mapsto> SetOf [''USER''])) w) = Inl err \<longrightarrow>
        signup e args w =
          (Inl err, snd (mutation_createUser (db_new_id e)
                  (args(''email'' \<mapsto> Str (toLowerCase e email),
                        ''password'' \<mapsto> Str (bcrypt_hash e plain 10),
                        ''permissions'' \<mapsto> SetOf [''USER''])) w)))
   \<and> (\<forall>u. fst (mutation_createUser (db_new_id e)
                  (args(''email'' \<mapsto> Str (toLowerCase e email),
                        ''password'' \<mapsto> Str (bcrypt_hash e plain 10),
                        ''permissions'' \<mapsto> SetOf [''USER''])) w) = Inr u \<longrightarrow>
        db (snd (signup e args w)) =
          db (snd (mutation_createUser (db_new_id e)
                  (args(''email'' \<mapsto> Str (toLowerCase e email),
                        ''password'' \<mapsto> Str (bcrypt_hash e plain 10),
                        ''permissions'' \<mapsto> SetOf [''USER''])) w)) \<and>
        fst (signup e args w) =
          (if falsy (APP_SECRET e) then Inl (Error ''secretOrPrivateKey must have a value'')
           else Inr (RUser u)))"
proof -
  let ?D = "args(''email'' \<mapsto> Str (toLowerCase e email),
                 ''password'' \<mapsto> Str (bcrypt_hash e plain 10),
                 ''permissions'' \<mapsto> SetOf [''USER''])"
  let ?m = "mutation_createUser (db_new_id e) ?D w"
  note st = signup_typed [OF em pw, of e w]
  have 1: "calls (snd (signup e args w)) = calls w @ [CreateUser ?D]"
    by (simp add: signup_unfold [OF em pw] split: sum.splits)
  have 2: "signup e args w = (Inl err, snd ?m)" if "fst ?m = Inl err" for err
    using that unfolding st by (cases ?m) simp
  have 3: "db (snd (signup e args w)) = db (snd ?m) \<and>
        fst (signup e args w) =
          (if falsy (APP_SECRET e) then Inl (Error ''secretOrPrivateKey must have a value'')
           else Inr (RUser u))" if "fst ?m = Inr u" for u
    using that unfolding st
    by (cases ?m) (auto simp: jwt_sign_def falsy_def response_cookie_def split: option.splits)
  from 1 2 3 show ?thesis by blast
qed

text \<open>
  Somebody signs up with the email of the shop's customer, with a capital letter;
  somebody signs up with a new email; and the same with the secret unset.
\<close>

theorem signup_duplicate_witness:
  "signup shop_env [''email'' \<mapsto> Str ''Bob@shop.io'', ''password'' \<mapsto> Str ''pw3''] shop =
     (Inl (DbError ''A unique constraint would be violated on User. Details: Field name = email''),
      shop\<lparr>calls :=
        [CreateUser [''email'' \<mapsto> Str ''Bob@shop.io'', ''password'' \<mapsto> Str ''pw3'',
                     ''email'' \<mapsto> Str ''bob@shop.io'', ''password'' \<mapsto> Str ''#pw3'',
                     ''permissions'' \<mapsto> SetOf [''USER'']]]\<rparr>)
   \<and> fst (signup shop_env [''email'' \<mapsto> Str ''Bo@shop.io'', ''password'' \<mapsto> Str ''pw3''] shop) =
     Inr (RUser \<lparr>u_id = ''n1'', u_email = ''bo@shop.io'', u_password = ''#pw3'',
                  u_permissions = [''USER''], u_resetToken = None, u_resetTokenExpiry = None,
                  u_rest = restrict_map
                    [''email'' \<mapsto> Str ''Bo@shop.io'', ''password'' \<mapsto> Str ''pw3'',
                     ''email'' \<mapsto> Str ''bo@shop.io'', ''password'' \<mapsto> Str ''#pw3'',
                     ''permissions'' \<mapsto> SetOf [''USER'']]
                    (- {''email'', ''password'', ''permissions''})\<rparr>)
   \<and> fst (signup (shop_env\<lparr>APP_SECRET := None\<rparr>)
            [''email'' \<mapsto> Str ''Bo@shop.io'', ''password'' \<mapsto> Str ''pw3''] shop) =
     Inl (Error ''secretOrPrivateKey must have a value'')"
proof -
  let ?dup = "[''email'' \<mapsto> Str ''Bob@shop.io'', ''password'' \<mapsto> Str ''pw3'']"
  let ?new = "[''email'' \<mapsto> Str ''Bo@shop.io'', ''password'' \<mapsto> Str ''pw3'']"
  have em1: "?dup ''email'' = Some (Str ''Bob@shop.io'')" by simp
  have pw1: "?dup ''password'' = Some (Str ''pw3'')" by simp
  have em2: "?new ''email'' = Some (Str ''Bo@shop.io'')" by simp
  have pw2: "?new ''password'' = Some (Str ''pw3'')" by simp
  have 1: "signup shop_env ?dup shop =
     (Inl (DbError ''A unique constraint would be violated on User. Details: Field name = email''),
      shop\<lparr>calls :=
        [CreateUser [''email'' \<mapsto> Str ''Bob@shop.io'', ''password'' \<mapsto> Str ''pw3'',
                     ''email'' \<mapsto> Str ''bob@shop.io'', ''password'' \<mapsto> Str ''#pw3'',
                     ''permissions'' \<mapsto> SetOf [''USER'']]]\<rparr>)"
    using signup_defers_to_database [where args = ?dup and e = shop_env and w = shop, OF em1 pw1,
        THEN conjunct2, THEN conjunct1, THEN spec,
        of "DbError ''A unique constraint would be violated on User. Details: Field name = email''"]
    by (simp add: shop_defs lower_char_def mutation_createUser_def string_of_def set_of_def
        record_call_def Let_def)
  have 2: "fst (signup shop_env ?new shop) =
     Inr (RUser \<lparr>u_id = ''n1'', u_email = ''bo@shop.io'', u_password = ''#pw3'',
                  u_permissions = [''USER''], u_resetToken = None, u_resetTokenExpiry = None,
                  u_rest = restrict_map
                    [''email'' \<mapsto> Str ''Bo@shop.io'', ''password'' \<mapsto> Str ''pw3'',
                     ''email'' \<mapsto> Str ''bo@shop.io'', ''password'' \<mapsto> Str ''#pw3'',
                     ''permissions'' \<mapsto> SetOf [''USER'']]
                    (- {''email'', ''password'', ''permissions''})\<rparr>)"
    using signup_defers_to_database [where args = ?new and e = shop_env and w = shop, OF em2 pw2,
        THEN conjunct2, THEN conjunct2, THEN spec,
        of "\<lparr>u_id = ''n1'', u_email = ''bo@shop.io'', u_password = ''#pw3'',
                  u_permissions = [''USER''], u_resetToken = None, u_resetTokenExpiry = None,
                  u_rest = restrict_map
                    [''email'' \<mapsto> Str ''Bo@shop.io'', ''password'' \<mapsto> Str ''pw3'',
                     ''email'' \<mapsto> Str ''bo@shop.io'', ''password'' \<mapsto> Str ''#pw3'',
                     ''permissions'' \<mapsto> SetOf [''USER'']]
                    (- {''email'', ''password'', ''permissions''})\<rparr>"]
    by (simp add: shop_defs lower_char_def mutation_createUser_def string_of_def set_of_def
        record_call_def Let_def falsy_def)
  have 3: "fst (signup (shop_env\<lparr>APP_SECRET := None\<rparr>) ?new shop) =
     Inl (Error ''secretOrPrivateKey must have a value'')"
    using signup_defers_to_database [where args = ?new and e = "shop_env\<lparr>APP_SECRET := None\<rparr>"
        and w = shop, OF em2 pw2,
        THEN conjunct2, THEN conjunct2, THEN spec,
        of "\<lparr>u_id = ''n1'', u_email = ''bo@shop.io'', u_password = ''#pw3'',
                  u_permissions = [''USER''], u_resetToken = None, u_resetTokenExpiry = None,
                  u_rest = restrict_map
                    [''email'' \<mapsto> Str ''Bo@shop.io'', ''password'' \<mapsto> Str ''pw3'',
                     ''email'' \<mapsto> Str ''bo@shop.io'', ''password'' \<mapsto> Str ''#pw3'',
                     ''permissions'' \<mapsto> SetOf [''USER'']]
                    (- {''email'', ''password'', ''permissions''})\<rparr>"]
    by (simp add: shop_defs lower_char_def mutation_createUser_def string_of_def set_of_def
        record_call_def Let_def falsy_def)
  from 1 2 3 show ?thesis by blast
qed

text \<open>
  \<^verbatim>\<open>signin\<close> and \<^verbatim>\<open>requestReset\<close> report that there is no such user exactly when no
  row carries the email of their arguments, character for character.
\<close>

lemma signin_no_user_iff:
  "(fst (signin e email password w) = Inl (Error (''No such user found for email '' @ email))) =
   (find (\<lambda>u. u_email u = email) (users (db w)) = None)"
  by (auto simp: signin_unfold jwt_sign_Inl split: option.splits sum.splits)

lemma requestReset_no_user_iff:
  "(fst (requestReset e email w) = Inl (Error (''No such user found for email '' @ email))) =
   (find (\<lambda>u. u_email u = email) (users (db w)) = None)"
  by (auto simp: requestReset_def query_user_def mutation_updateUser_def transport_sendMail_def
      Let_def split: option.splits)

lemma requestReset_found:
  "find (\<lambda>u. u_email u = email) (users (db w)) = Some u \<Longrightarrow>
   calls (snd (requestReset e email w)) =
     calls w @ [UpdateUser (ByEmail email) (ResetStamp (randomHex e) (now e + 3600000))]"
  by (auto simp: requestReset_def query_user_def mutation_updateUser_def transport_sendMail_def
      record_call_def set_users_def Let_def split: option.splits)

text \<open>
  C10. The row that \<^verbatim>\<open>signup\<close> creates carries the lowercased email and is found under
  it. \<^verbatim>\<open>signin\<close> and \<^verbatim>\<open>requestReset\<close> look the email of their arguments up as it is:
  in every state they report that there is no such user exactly when no row carries that
  very email. So after a \<^verbatim>\<open>signup\<close> with an email that lowercasing changes (and that no
  older row carries), both fail to find a user for the email as it was typed, while with
  the lowercased email \<^verbatim>\<open>signin\<close> reaches the created user and \<^verbatim>\<open>requestReset\<close>
  stamps it.
\<close>

theorem signup_lowercases_lookups_verbatim:
  "(\<forall>r. fst (signup e args w) = Inr r \<longrightarrow>
      (\<exists>u email. args ''email'' = Some (Str email) \<and> r = RUser u \<and>
           u_email u = toLowerCase e email \<and>
           users (db (snd (signup e args w))) = users (db w) @ [u] \<and>
           query_user (db (snd (signup e args w))) (ByEmail (toLowerCase e email)) = Some u))
   \<and> (\<forall>email password w'.
        (fst (signin e' email password w') =
           Inl (Error (''No such user found for email '' @ email))) =
        (find (\<lambda>u. u_email u = email) (users (db w')) = None))
   \<and> (\<forall>email w'.
        (fst (requestReset e' email w') =
           Inl (Error (''No such user found for email '' @ email))) =
        (find (\<lambda>u. u_email u = email) (users (db w')) = None))
   \<and> (\<forall>u email. fst (signup e args w) = Inr (RUser u) \<and> args ''email'' = Some (Str email) \<and>
        toLowerCase e email \<noteq> email \<and> query_user (db w) (ByEmail email) = None \<longrightarrow>
        signin e' email password (snd (signup e args w)) =
          (Inl (Error (''No such user found for email '' @ email)), snd (signup e args w)) \<and>
        requestReset e' email (snd (signup e args w)) =
          (Inl (Error (''No such user found for email '' @ email)), snd (signup e args w)) \<and>
        fst (signin e' (toLowerCase e email) password (snd (signup e args w))) =
          (if \<not> bcrypt_compare e' password (u_password u) then Inl (Error ''Invalid password!'')
           else if falsy (APP_SECRET e') then Inl (Error ''secretOrPrivateKey must have a value'')
           else Inr (RUser u)) \<and>
        calls (snd (requestReset e' (toLowerCase e email) (snd (signup e args w)))) =
          calls (snd (signup e args w)) @
            [UpdateUser (ByEmail (toLowerCase e email))
               (ResetStamp (randomHex e') (now e' + 3600000))])"
proof -
  let ?w1 = "snd (signup e args w)"
  have created: "\<exists>u email. args ''email'' = Some (Str email) \<and> r = RUser u \<and>
           u_email u = toLowerCase e email \<and>
           users (db ?w1) = users (db w) @ [u] \<and>
           query_user (db ?w1) (ByEmail (toLowerCase e email)) = Some u"
    if ok: "fst (signup e args w) = Inr r" for r
  proof -
    have "string_of (args ''email'') \<noteq> None \<and> string_of (args ''password'') \<noteq> None"
      using ok signup_untyped [of args e w] by force
    then obtain email plain
      where em: "args ''email'' = Some (Str email)" and pl: "args ''password'' = Some (Str plain)"
      by (auto simp: string_of_def split: option.splits jsval.splits)
    let ?u = "\<lparr>u_id = db_new_id e, u_email = toLowerCase e email,
               u_password = bcrypt_hash e plain 10, u_permissions = [''USER''],
               u_resetToken = None, u_resetTokenExpiry = None,
               u_rest = restrict_map args (- {''email'', ''password'', ''permissions''})\<rparr>"
    from ok have nodup: "\<not> list_ex (\<lambda>u. u_email u = toLowerCase e email) (users (db w))"
      by (auto simp: signup_unfold [OF em pl] split: if_splits)
    then have fn: "find (\<lambda>u. u_email u = toLowerCase e email) (users (db w)) = None"
      by (simp add: find_None_iff list_ex_iff)
    from ok nodup have r: "r = RUser ?u"
      by (auto simp: signup_unfold [OF em pl] split: sum.splits)
    from nodup have us: "users (db ?w1) = users (db w) @ [?u]"
      by (simp add: signup_unfold [OF em pl] split: sum.splits)
    have q: "query_user (db ?w1) (ByEmail (toLowerCase e email)) = Some ?u"
      by (simp add: query_user_def us find_append_None [OF fn])
    from em r us q show ?thesis
      by (intro exI [of _ ?u] exI [of _ email]) simp
  qed
  have lookups: "signin e' email password ?w1 =
          (Inl (Error (''No such user found for email '' @ email)), ?w1) \<and>
        requestReset e' email ?w1 =
          (Inl (Error (''No such user found for email '' @ email)), ?w1) \<and>
        fst (signin e' (toLowerCase e email) password ?w1) =
          (if \<not> bcrypt_compare e' password (u_password u) then Inl (Error ''Invalid password!'')
           else if falsy (APP_SECRET e') then Inl (Error ''secretOrPrivateKey must have a value'')
           else Inr (RUser u)) \<and>
        calls (snd (requestReset e' (toLowerCase e email) ?w1)) =
          calls ?w1 @
            [UpdateUser (ByEmail (toLowerCase e email))
               (ResetStamp (randomHex e') (now e' + 3600000))]"
    if a: "fst (signup e args w) = Inr (RUser u) \<and> args ''email'' = Some (Str email) \<and>
        toLowerCase e email \<noteq> email \<and> query_user (db w) (ByEmail email) = None" for u email
  proof -
    from a have ok: "fst (signup e args w) = Inr (RUser u)" and em: "args ''email'' = Some (Str email)"
      and ne: "toLowerCase e email \<noteq> email"
      and fn: "find (\<lambda>u. u_email u = email) (users (db w)) = None"
      by (simp_all add: query_user_def)
    from created [OF ok] em
    have ue: "u_email u = toLowerCase e email" and us: "users (db ?w1) = users (db w) @ [u]"
      and q: "find (\<lambda>x. u_email x = toLowerCase e email) (users (db ?w1)) = Some u"
      by (auto simp: query_user_def)
    have qn: "find (\<lambda>x. u_email x = email) (users (db ?w1)) = None"
      using ne ue by (simp add: us find_append_None [OF fn])
    have 1: "signin e' email password ?w1 =
          (Inl (Error (''No such user found for email '' @ email)), ?w1)"
      using qn by (simp add: signin_unfold)
    have 2: "requestReset e' email ?w1 =
          (Inl (Error (''No such user found for email '' @ email)), ?w1)"
      using qn by (simp add: requestReset_def query_user_def)
    have 3: "fst (signin e' (toLowerCase e email) password ?w1) =
          (if \<not> bcrypt_compare e' password (u_password u) then Inl (Error ''Invalid password!'')
           else if falsy (APP_SECRET e') then Inl (Error ''secretOrPrivateKey must have a value'')
           else Inr (RUser u))"
      using q by (auto simp: signin_unfold jwt_sign_def falsy_def split: option.splits)
    note 4 = requestReset_found [OF q, of e']
    from 1 2 3 4 show ?thesis by blast
  qed
  from created lookups signin_no_user_iff [of e'] requestReset_no_user_iff [of e']
  show ?thesis by blast
qed

text \<open>
  A new customer signs up as \<^verbatim>\<open>Bo@shop.io\<close>, then signs in with the lowercased email, and
  signs in and asks for a reset with the email as typed.
\<close>

theorem email_case_witness:
  "(\<exists>u. fst (signup shop_env [''email'' \<mapsto> Str ''Bo@shop.io'', ''password'' \<mapsto> Str ''pw3''] shop)
          = Inr (RUser u) \<and> u_email u = ''bo@shop.io'' \<and>
        fst (signin shop_env ''bo@shop.io'' ''pw3''
          (snd (signup shop_env [''email'' \<mapsto> Str ''Bo@shop.io'', ''password'' \<mapsto> Str ''pw3''] shop)))
        = Inr (RUser u))
   \<and> fst (signin shop_env ''Bo@shop.io'' ''pw3''
       (snd (signup shop_env [''email'' \<mapsto> Str ''Bo@shop.io'', ''password'' \<mapsto> Str ''pw3''] shop)))
     = Inl (Error ''No such user found for email Bo@shop.io'')
   \<and> fst (requestReset shop_env ''Bo@shop.io''
       (snd (signup shop_env [''email'' \<mapsto> Str ''Bo@shop.io'', ''password'' \<mapsto> Str ''pw3''] shop)))
     = Inl (Error ''No such user found for email Bo@shop.io'')"
proof -
  let ?args = "[''email'' \<mapsto> Str ''Bo@shop.io'', ''password'' \<mapsto> Str ''pw3'']"
  let ?w1 = "snd (signup shop_env ?args shop)"
  have em: "?args ''email'' = Some (Str ''Bo@shop.io'')" by simp
  have pw: "?args ''password'' = Some (Str ''pw3'')" by simp
  obtain r where h1: "fst (signup shop_env ?args shop) = Inr r"
    by (simp add: signup_unfold [where args = ?args, OF em pw] shop_defs lower_char_def
        jwt_sign_def falsy_def)
  note T = signup_lowercases_lookups_verbatim [where args = ?args and e = shop_env and w = shop
      and e' = shop_env and password = "''pw3''"]
  from T [THEN conjunct1, rule_format, OF h1]
  obtain u where r: "r = RUser u" and ue: "u_email u = ''bo@shop.io''"
    and us: "users (db ?w1) = users (db shop) @ [u]"
    by (auto simp: shop_env_def lower_char_def)
  have up: "u_password u = ''#pw3''"
    using h1 r by (auto simp: signup_unfold [where args = ?args, OF em pw] shop_defs
        lower_char_def split: if_splits sum.splits)
  have h2: "fst (signup shop_env ?args shop) = Inr (RUser u) \<and>
      ?args ''email'' = Some (Str ''Bo@shop.io'') \<and>
      toLowerCase shop_env ''Bo@shop.io'' \<noteq> ''Bo@shop.io'' \<and>
      query_user (db shop) (ByEmail ''Bo@shop.io'') = None"
    using h1 r by (simp add: shop_defs lower_char_def query_user_def)
  note L = T [THEN conjunct2, THEN conjunct2, THEN conjunct2, rule_format, OF h2]
  have a: "fst (signin shop_env ''bo@shop.io'' ''pw3'' ?w1) = Inr (RUser u)"
    using L up by (simp add: shop_env_def lower_char_def falsy_def)
  have b: "fst (signin shop_env ''Bo@shop.io'' ''pw3'' ?w1)
     = Inl (Error ''No such user found for email Bo@shop.io'')"
    and c: "fst (requestReset shop_env ''Bo@shop.io'' ?w1)
     = Inl (Error ''No such user found for email Bo@shop.io'')"
    using L by simp_all
  from h1 r ue a b c show ?thesis by blast
qed

section \<open>Updating an item\<close>

text \<open>
  C8. \<^verbatim>\<open>updateItem\<close> issues one \<^verbatim>\<open>updateItem\<close> mutation; its \<^verbatim>\<open>where\<close> is the
  \<^verbatim>\<open>id\<close> of the arguments and its \<^verbatim>\<open>data\<close> has no \<^verbatim>\<open>id\<close> and agrees with the
  arguments on every other key. When the id is that of an item \<^verbatim>\<open>x\<close>, the fields of
  \<^verbatim>\<open>x\<close> are overwritten by that data, and the id of \<^verbatim>\<open>x\<close>, its owner and every other
  item stay as they were.
\<close>

theorem updateItem_forwards_all_but_id:
  "(\<exists>data. calls (snd (updateItem args w)) = calls w @ [UpdateItem (args ''id'') data] \<and>
       (\<forall>k. data k = (if k = ''id'' then None else args k)))
   \<and> (\<forall>i x. args ''id'' = Some (Str i) \<and> distinct (map i_id (items (db w))) \<and>
        x \<in> set (items (db w)) \<and> i_id x = i \<longrightarrow>
        updateItem args w =
          (Inr (RItem (x\<lparr>i_fields := i_fields x ++ args(''id'' := None)\<rparr>)),
           w\<lparr>db := (db w)\<lparr>items :=
                  map (\<lambda>y. if y = x then y\<lparr>i_fields := i_fields y ++ args(''id'' := None)\<rparr> else y)
                    (items (db w))\<rparr>,
              calls := calls w @ [UpdateItem (args ''id'') (args(''id'' := None))]\<rparr>))"
proof (intro conjI allI impI)
  show "\<exists>data. calls (snd (updateItem args w)) = calls w @ [UpdateItem (args ''id'') data] \<and>
       (\<forall>k. data k = (if k = ''id'' then None else args k))"
    by (rule exI [of _ "args(''id'' := None)"])
      (simp add: updateItem_def mutation_updateItem_def record_call_def set_items_def Let_def
        split: option.splits jsval.splits)
next
  fix i x
  assume a: "args ''id'' = Some (Str i) \<and> distinct (map i_id (items (db w))) \<and>
        x \<in> set (items (db w)) \<and> i_id x = i"
  then have ids: "distinct (map i_id (items (db w)))" and mem: "x \<in> set (items (db w))"
    and xi: "i = i_id x" by auto
  have fk: "query_item (db w) i = Some x"
    unfolding xi query_item_def using find_by_key [OF ids mem] .
  have mk: "map (\<lambda>y. if i_id y = i then y\<lparr>i_fields := i_fields y ++ args(''id'' := None)\<rparr> else y)
              (items (db w))
          = map (\<lambda>y. if y = x then y\<lparr>i_fields := i_fields y ++ args(''id'' := None)\<rparr> else y)
              (items (db w))"
    unfolding xi using map_by_key [OF ids mem] .
  show "updateItem args w =
          (Inr (RItem (x\<lparr>i_fields := i_fields x ++ args(''id'' := None)\<rparr>)),
           w\<lparr>db := (db w)\<lparr>items :=
                  map (\<lambda>y. if y = x then y\<lparr>i_fields := i_fields y ++ args(''id'' := None)\<rparr> else y)
                    (items (db w))\<rparr>,
              calls := calls w @ [UpdateItem (args ''id'') (args(''id'' := None))]\<rparr>)"
    using a fk mk
    by (simp add: updateItem_def mutation_updateItem_def record_call_def set_items_def Let_def)
qed

text \<open>
  The shoes of the shop get a new title and a new price.
\<close>

theorem updateItem_witness:
  "(\<exists>x. fst (updateItem [''id'' \<mapsto> Str ''i1'', ''title'' \<mapsto> Str ''Boots'', ''price'' \<mapsto> Num 120] shop)
          = Inr (RItem x) \<and>
        i_id x = ''i1'' \<and> i_user x = ''u1'' \<and> i_fields x ''id'' = None \<and>
        i_fields x ''title'' = Some (Str ''Boots'') \<and> i_fields x ''price'' = Some (Num 120))
   \<and> (\<exists>d. calls (snd (updateItem [''id'' \<mapsto> Str ''i1'', ''title'' \<mapsto> Str ''Boots'', ''price'' \<mapsto> Num 120] shop))
          = [UpdateItem (Some (Str ''i1'')) d] \<and>
        d ''id'' = None \<and> d ''title'' = Some (Str ''Boots'') \<and> d ''price'' = Some (Num 120))"
proof -
  let ?args = "[''id'' \<mapsto> Str ''i1'', ''title'' \<mapsto> Str ''Boots'', ''price'' \<mapsto> Num 120]"
  have h: "?args ''id'' = Some (Str ''i1'') \<and> distinct (map i_id (items (db shop))) \<and>
        shoes \<in> set (items (db shop)) \<and> i_id shoes = ''i1''"
    by (simp add: shop_defs)
  note T = updateItem_forwards_all_but_id [of ?args shop, THEN conjunct2, rule_format, OF h]
  have 1: "fst (updateItem ?args shop) = Inr (RItem (shoes\<lparr>i_fields := i_fields shoes ++ ?args(''id'' := None)\<rparr>))"
    using T by simp
  have 2: "calls (snd (updateItem ?args shop)) = [UpdateItem (Some (Str ''i1'')) (?args(''id'' := None))]"
    using T by (simp add: shop_def)
  have a: "\<exists>x. fst (updateItem ?args shop) = Inr (RItem x) \<and>
        i_id x = ''i1'' \<and> i_user x = ''u1'' \<and> i_fields x ''id'' = None \<and>
        i_fields x ''title'' = Some (Str ''Boots'') \<and> i_fields x ''price'' = Some (Num 120)"
    using 1 by (intro exI [of _ "shoes\<lparr>i_fields := i_fields shoes ++ ?args(''id'' := None)\<rparr>"])
      (simp add: shoes_def map_add_def)
  have b: "\<exists>d. calls (snd (updateItem ?args shop)) = [UpdateItem (Some (Str ''i1'')) d] \<and>
        d ''id'' = None \<and> d ''title'' = Some (Str ''Boots'') \<and> d ''price'' = Some (Num 120)"
    using 2 by (intro exI [of _ "?args(''id'' := None)"]) simp
  from a b show ?thesis by (rule conjI)
qed

section \<open>Resetting a password\<close>

text \<open>
  A request whose token is carried by a row with an expiry of at least
  \<^verbatim>\<open>now e - 3600000\<close> is accepted: the password of the first such row is replaced by the
  hash of the new one and its token is cleared, before the session token is signed. A
  request whose token no such row carries is rejected and changes nothing.
\<close>

lemma find_map_same_key:
  "(\<And>x. P (f x) = P x) \<Longrightarrow>
   find P (map (\<lambda>x. if P x then f x else x) xs) = map_option f (find P xs)"
  by (induction xs) auto

lemma resetPassword_accepts:
  assumes pw: "ra_password a = ra_confirmPassword a"
    and mem: "x \<in> set (users (db w))"
    and tok: "u_resetToken x = Some (ra_resetToken a)"
    and ex: "u_resetTokenExpiry x = Some t" "now e - 3600000 \<le> t"
  shows "\<exists>y v. y \<in> set (users (db w)) \<and> u_resetToken y = Some (ra_resetToken a) \<and>
             calls (snd (resetPassword e a w)) = calls w @
               [UpdateUser (ByEmail (u_email y)) (NewPassword (bcrypt_hash e (ra_password a) 10))] \<and>
             query_user (db (snd (resetPassword e a w))) (ByEmail (u_email y)) = Some v \<and>
             u_password v = bcrypt_hash e (ra_password a) 10 \<and>
             u_resetToken v = None \<and> u_resetTokenExpiry v = None \<and>
             fst (resetPassword e a w) =
               (if falsy (APP_SECRET e) then Inl (Error ''secretOrPrivateKey must have a value'')
                else Inr (RUser v))"
proof -
  let ?upd = "NewPassword (bcrypt_hash e (ra_password a) 10)"
  from mem tok ex have "x \<in> set (query_users (db w) (ra_resetToken a) (now e - 3600000))"
    by (simp add: query_users_def expiry_gte_def)
  then obtain y ys where q: "query_users (db w) (ra_resetToken a) (now e - 3600000) = y # ys"
    by (cases "query_users (db w) (ra_resetToken a) (now e - 3600000)") auto
  then have "y \<in> set (query_users (db w) (ra_resetToken a) (now e - 3600000))"
    by simp
  then have ymem: "y \<in> set (users (db w))" and ytok: "u_resetToken y = Some (ra_resetToken a)"
    by (simp_all add: query_users_def)
  from ymem have "find (\<lambda>u. u_email u = u_email y) (users (db w)) \<noteq> None"
    by (rule find_not_None) simp
  then obtain z where z: "find (\<lambda>u. u_email u = u_email y) (users (db w)) = Some z"
    by auto
  let ?v = "apply_user_update ?upd z"
  let ?us = "map (\<lambda>x. if u_email x = u_email y then apply_user_update ?upd x else x) (users (db w))"
  have keep: "(u_email (apply_user_update ?upd x) = u_email y) = (u_email x = u_email y)" for x
    by (simp add: apply_user_update_def)
  have fv: "find (\<lambda>u. u_email u = u_email y) ?us = Some ?v"
    using find_map_same_key [of "\<lambda>u. u_email u = u_email y" "apply_user_update ?upd", OF keep]
    by (simp add: z)
  have unf: "resetPassword e a w =
      (case jwt_sign e (u_id ?v) (APP_SECRET e) of
         Inl err \<Rightarrow> (Inl err, w\<lparr>db := (db w)\<lparr>users := ?us\<rparr>,
                               calls := calls w @ [UpdateUser (ByEmail (u_email y)) ?upd]\<rparr>)
       | Inr token \<Rightarrow>
           (Inr (RUser ?v),
            w\<lparr>db := (db w)\<lparr>users := ?us\<rparr>,
              calls := calls w @ [UpdateUser (ByEmail (u_email y)) ?upd],
              cookies := cookies w @
                [\<lparr>c_name = ''token'', c_value = token, c_httpOnly = True,
                  c_maxAge = 31536000000\<rparr>]\<rparr>))"
    using pw q z
    by (simp add: resetPassword_def Let_def mutation_updateUser_def query_user_def
        matches_user_def record_call_def set_users_def response_cookie_def split: sum.splits)
  have c: "calls (snd (resetPassword e a w)) = calls w @ [UpdateUser (ByEmail (u_email y)) ?upd]"
    by (simp add: unf split: sum.splits)
  have us: "users (db (snd (resetPassword e a w))) = ?us"
    by (simp add: unf split: sum.splits)
  have qv: "query_user (db (snd (resetPassword e a w))) (ByEmail (u_email y)) = Some ?v"
    by (simp add: query_user_def us fv)
  have f: "fst (resetPassword e a w) =
               (if falsy (APP_SECRET e) then Inl (Error ''secretOrPrivateKey must have a value'')
                else Inr (RUser ?v))"
    by (auto simp: unf jwt_sign_def falsy_def split: option.splits)
  have pv: "u_password ?v = bcrypt_hash e (ra_password a) 10 \<and>
            u_resetToken ?v = None \<and> u_resetTokenExpiry ?v = None"
    by (simp add: apply_user_update_def)
  from ymem ytok c qv pv f show ?thesis
    by (intro exI [of _ y] exI [of _ ?v]) simp
qed

lemma resetPassword_rejects:
  assumes "\<And>x t. x \<in> set (users (db w)) \<Longrightarrow> u_resetToken x = Some (ra_resetToken a) \<Longrightarrow>
             u_resetTokenExpiry x = Some t \<Longrightarrow> t < now e - 3600000"
    and pw: "ra_password a = ra_confirmPassword a"
  shows "resetPassword e a w =
     (Inl (Error ''This token is either invalid or expired - try requesting another password reset.''), w)"
proof -
  have "query_users (db w) (ra_resetToken a) (now e - 3600000) = []"
    using assms(1) by (fastforce simp: query_users_def expiry_gte_def filter_empty_conv split: option.splits)
  with pw show ?thesis
    by (simp add: resetPassword_def)
qed

lemma requestReset_unfold:
  assumes "query_user (db w) (ByEmail em) = Some u" and "smtp_error e = None"
  shows "fst (requestReset e em w) = Inr (RMessage ''Password reset requested!'')"
    and "users (db (snd (requestReset e em w))) =
           map (\<lambda>x. if u_email x = em
                     then x\<lparr>u_resetToken := Some (randomHex e),
                            u_resetTokenExpiry := Some (now e + 3600000)\<rparr>
                     else x) (users (db w))"
    and "calls (snd (requestReset e em w)) =
           calls w @ [UpdateUser (ByEmail em) (ResetStamp (randomHex e) (now e + 3600000))]"
  using assms
  by (simp_all add: requestReset_def Let_def mutation_updateUser_def record_call_def set_users_def
      transport_sendMail_def matches_user_def apply_user_update_def)

text \<open>
  C9. \<^verbatim>\<open>requestReset\<close> at time \<^verbatim>\<open>now e0\<close> stamps the user with the token and the
  expiry \<^verbatim>\<open>now e0 + 3600000\<close>. \<^verbatim>\<open>resetPassword\<close> at time \<^verbatim>\<open>now e1\<close> asks for
  an expiry of at least \<^verbatim>\<open>now e1 - 3600000\<close>. So as long as \<^verbatim>\<open>now e1\<close> is at most
  \<^verbatim>\<open>now e0 + 7200000\<close>, two hours after the request, it accepts the token: it issues the
  \<^verbatim>\<open>updateUser\<close> that stores the hash of the new password with a row that carries the
  token, and returns that user (or, with no secret, throws when it signs the session
  token, the password already changed). After that (when no other row carries the same
  token) it rejects the token and changes nothing.
\<close>

theorem reset_token_accepted_for_two_hours:
  assumes usr: "query_user (db w) (ByEmail em) = Some u"
    and mail: "smtp_error e0 = None"
    and pw: "ra_password a = ra_confirmPassword a"
    and tok: "ra_resetToken a = randomHex e0"
  shows "fst (requestReset e0 em w) = Inr (RMessage ''Password reset requested!'')
     \<and> query_user (db (snd (requestReset e0 em w))) (ByEmail em) =
          Some (u\<lparr>u_resetToken := Some (randomHex e0),
                  u_resetTokenExpiry := Some (now e0 + 3600000)\<rparr>)
     \<and> (now e1 \<le> now e0 + 7200000 \<longrightarrow>
          (\<exists>y v. y \<in> set (users (db (snd (requestReset e0 em w)))) \<and>
             u_resetToken y = Some (randomHex e0) \<and>
             calls (snd (resetPassword e1 a (snd (requestReset e0 em w)))) =
               calls (snd (requestReset e0 em w)) @
                 [UpdateUser (ByEmail (u_email y))
                    (NewPassword (bcrypt_hash e1 (ra_password a) 10))] \<and>
             query_user (db (snd (resetPassword e1 a (snd (requestReset e0 em w)))))
                 (ByEmail (u_email y)) = Some v \<and>
             u_password v = bcrypt_hash e1 (ra_password a) 10 \<and>
             u_resetToken v = None \<and> u_resetTokenExpiry v = None \<and>
             fst (resetPassword e1 a (snd (requestReset e0 em w))) =
               (if falsy (APP_SECRET e1) then Inl (Error ''secretOrPrivateKey must have a value'')
                else Inr (RUser v))))
     \<and> (now e0 + 7200000 < now e1 \<and>
          (\<forall>x\<in>set (users (db w)). u_resetToken x \<noteq> Some (randomHex e0)) \<longrightarrow>
          resetPassword e1 a (snd (requestReset e0 em w)) =
            (Inl (Error ''This token is either invalid or expired - try requesting another password reset.''),
             snd (requestReset e0 em w)))"
proof -
  let ?stamp = "\<lambda>x. if u_email x = em
                       then x\<lparr>u_resetToken := Some (randomHex e0),
                              u_resetTokenExpiry := Some (now e0 + 3600000)\<rparr>
                       else x"
  let ?w1 = "snd (requestReset e0 em w)"
  note rr = requestReset_unfold(1) [OF usr mail]
  note us = requestReset_unfold(2) [OF usr mail]
  from usr have f: "find (\<lambda>x. u_email x = em) (users (db w)) = Some u"
    by (simp add: query_user_def)
  then have umem: "u \<in> set (users (db w))" and uem: "u_email u = em"
    by (auto dest: find_Some_mem)
  have fs: "find (\<lambda>x. u_email x = em) (map ?stamp xs) = map_option ?stamp (find (\<lambda>x. u_email x = em) xs)"
    for xs :: "user list"
    by (induction xs) auto
  have 1: "query_user (db ?w1) (ByEmail em) =
              Some (u\<lparr>u_resetToken := Some (randomHex e0),
                      u_resetTokenExpiry := Some (now e0 + 3600000)\<rparr>)"
    by (simp add: query_user_def us fs f uem)
  have smem: "?stamp u \<in> set (users (db ?w1))"
    using umem by (simp add: us)
  have 2: "\<exists>y v. y \<in> set (users (db ?w1)) \<and>
             u_resetToken y = Some (randomHex e0) \<and>
             calls (snd (resetPassword e1 a ?w1)) =
               calls ?w1 @
                 [UpdateUser (ByEmail (u_email y))
                    (NewPassword (bcrypt_hash e1 (ra_password a) 10))] \<and>
             query_user (db (snd (resetPassword e1 a ?w1))) (ByEmail (u_email y)) = Some v \<and>
             u_password v = bcrypt_hash e1 (ra_password a) 10 \<and>
             u_resetToken v = None \<and> u_resetTokenExpiry v = None \<and>
             fst (resetPassword e1 a ?w1) =
               (if falsy (APP_SECRET e1) then Inl (Error ''secretOrPrivateKey must have a value'')
                else Inr (RUser v))"
    if "now e1 \<le> now e0 + 7200000"
    using that resetPassword_accepts [OF pw smem, of "now e0 + 3600000" e1]
    by (simp add: uem tok)
  have 3: "resetPassword e1 a ?w1 =
      (Inl (Error ''This token is either invalid or expired - try requesting another password reset.''), ?w1)"
    if late: "now e0 + 7200000 < now e1"
      and fresh: "\<forall>x\<in>set (users (db w)). u_resetToken x \<noteq> Some (randomHex e0)"
  proof (rule resetPassword_rejects [OF _ pw])
    fix x t
    assume "x \<in> set (users (db ?w1))" and xt: "u_resetToken x = Some (ra_resetToken a)"
      and xe: "u_resetTokenExpiry x = Some t"
    then obtain y where y: "y \<in> set (users (db w))" and xy: "x = ?stamp y"
      by (auto simp: us)
    show "t < now e1 - 3600000"
    proof (cases "u_email y = em")
      case True
      with xy xe late show ?thesis by simp
    next
      case False
      with xy xt fresh y tok show ?thesis by auto
    qed
  qed
  from rr 1 2 3 show ?thesis by blast
qed

text \<open>
  The customer of the shop requests a reset at time 1000000; the token is used two hours
  later, one millisecond after that, and two hours later with the secret unset.
\<close>

theorem reset_window_witness:
  "fst (requestReset shop_env ''bob@shop.io'' shop) = Inr (RMessage ''Password reset requested!'')
   \<and> (\<exists>v. fst (resetPassword (shop_env\<lparr>now := 8200000\<rparr>)
               \<lparr>ra_resetToken = ''0a1b2c'', ra_password = ''new'', ra_confirmPassword = ''new''\<rparr>
               (snd (requestReset shop_env ''bob@shop.io'' shop))) = Inr (RUser v) \<and>
           u_password v = ''#new'')
   \<and> fst (resetPassword (shop_env\<lparr>now := 8200001\<rparr>)
               \<lparr>ra_resetToken = ''0a1b2c'', ra_password = ''new'', ra_confirmPassword = ''new''\<rparr>
               (snd (requestReset shop_env ''bob@shop.io'' shop))) =
       Inl (Error ''This token is either invalid or expired - try requesting another password reset.'')
   \<and> fst (resetPassword (shop_env\<lparr>now := 8200000, APP_SECRET := None\<rparr>)
               \<lparr>ra_resetToken = ''0a1b2c'', ra_password = ''new'', ra_confirmPassword = ''new''\<rparr>
               (snd (requestReset shop_env ''bob@shop.io'' shop))) =
       Inl (Error ''secretOrPrivateKey must have a value'')"
proof -
  let ?a = "\<lparr>ra_resetToken = ''0a1b2c'', ra_password = ''new'', ra_confirmPassword = ''new''\<rparr>"
  have usr: "query_user (db shop) (ByEmail ''bob@shop.io'') = Some bob"
    by (simp add: shop_defs query_user_def)
  have mail: "smtp_error shop_env = None"
    by (simp add: shop_env_def)
  have pw: "ra_password ?a = ra_confirmPassword ?a"
    by simp
  have tok: "ra_resetToken ?a = randomHex shop_env"
    by (simp add: shop_env_def)
  note T = reset_token_accepted_for_two_hours [OF usr mail pw tok]
  have 1: "fst (requestReset shop_env ''bob@shop.io'' shop) = Inr (RMessage ''Password reset requested!'')"
    using T [of shop_env] by simp
  have 2: "\<exists>v. fst (resetPassword (shop_env\<lparr>now := 8200000\<rparr>) ?a
               (snd (requestReset shop_env ''bob@shop.io'' shop))) = Inr (RUser v) \<and>
           u_password v = ''#new''"
    using T [of "shop_env\<lparr>now := 8200000\<rparr>", THEN conjunct2, THEN conjunct2, THEN conjunct1]
    by (auto simp: shop_env_def falsy_def)
  have 3: "fst (resetPassword (shop_env\<lparr>now := 8200001\<rparr>) ?a
               (snd (requestReset shop_env ''bob@shop.io'' shop))) =
       Inl (Error ''This token is either invalid or expired - try requesting another password reset.'')"
    using T [of "shop_env\<lparr>now := 8200001\<rparr>", THEN conjunct2, THEN conjunct2, THEN conjunct2]
    by (simp add: shop_defs)
  have 4: "fst (resetPassword (shop_env\<lparr>now := 8200000, APP_SECRET := None\<rparr>) ?a
               (snd (requestReset shop_env ''bob@shop.io'' shop))) =
       Inl (Error ''secretOrPrivateKey must have a value'')"
    using T [of "shop_env\<lparr>now := 8200000, APP_SECRET := None\<rparr>",
        THEN conjunct2, THEN conjunct2, THEN conjunct1]
    by (auto simp: shop_env_def falsy_def)
  from 1 2 3 4 show ?thesis by blast
qed

end
